theory Spec2Isabelle
  imports Main "HOL-Library.Word" "HOL-Library.Multiset"
begin

section \<open>Data model of server_session_media.go\<close>

type_synonym byte = "8 word"

text \<open>A \<open>time.Time\<close> is kept as the nanoseconds since the Unix epoch; \<open>Unix\<close> reads the
  whole seconds as Go's \<open>int64\<close>, \<open>timeAdd\<close> is \<open>Time.Add\<close> with a duration in nanoseconds.\<close>

type_synonym gotime = int

definition Unix :: "gotime \<Rightarrow> 64 word" where
  "Unix t = word_of_int (t div 1000000000)"

definition timeAdd :: "gotime \<Rightarrow> int \<Rightarrow> gotime" where
  "timeAdd t d = t + d"

type_synonym ip = "byte list"
type_synonym udp_addr = "ip \<times> int"

datatype transport = TransportUDP | TransportUDPMulticast | TransportTCP

datatype server_session_state =
    ServerSessionStateInitial
  | ServerSessionStatePrePlay
  | ServerSessionStatePlay
  | ServerSessionStatePreRecord
  | ServerSessionStateRecord

text \<open>The fields of \<open>rtp.Packet\<close> (header embedded) that this file reads or writes.\<close>

record rtp_packet =
  Version :: "8 word"
  PayloadType :: "8 word"
  SequenceNumber :: "16 word"
  Timestamp :: "32 word"
  rtp_SSRC :: "32 word"
  rtp_Payload :: "byte list"

record sender_report =
  sr_SSRC :: "32 word"
  NTPTime :: "64 word"
  RTPTime :: "32 word"

record receiver_report =
  rr_SSRC :: "32 word"
  rr_Reports :: "byte list list"

text \<open>\<open>rtcp.Packet\<close> is an interface; the handlers only test for \<open>*rtcp.SenderReport\<close>.\<close>

datatype rtcp_packet =
    SenderReport sender_report
  | ReceiverReport receiver_report
  | OtherRTCP "byte list"

text \<open>The errors of package liberrors raised here, and the error value of a parser of
  pion (\<open>rtp.Packet.Unmarshal\<close>, \<open>rtcp.Unmarshal\<close>), which is passed on as it is.\<close>

datatype liberror =
    ErrServerWriteQueueFull
  | ErrServerRTPPacketTooBigUDP
  | ErrServerRTCPPacketTooBigUDP
  | ErrServerRTCPPacketTooBig (errL: int) (errMax: int)
  | ErrServerRTPPacketUnknownPayloadType (errPayloadType: "8 word")
  | ErrUnmarshal string

datatype panic = NilPointerDereference

text \<open>Modelled from the spec: the per-format component (\<open>serverSessionFormat\<close> is declared
  in another file). \<open>sf_ptr\<close> is the identity of the object; \<open>SenderSSRC\<close> is what
  \<open>rtcpReceiver.SenderSSRC()\<close> returns, the SSRC and the found flag, which stays the same
  during one call of a read handler. The calls made on a component are logged in the
  trace.\<close>

record serverSessionFormat =
  sf_ptr :: nat
  SenderSSRC :: "32 word \<times> bool"

record interleaved_frame =
  Channel :: int
  Payload :: "byte list"

text \<open>Method values of this transport: the read callbacks handed to the listeners and to
  the channel dispatcher, and the functions stored in the two write fields.\<close>

datatype readFunc =
    ReadRTCPUDPPlay
  | ReadRTPUDPRecord
  | ReadRTCPUDPRecord
  | ReadRTPTCPPlay
  | ReadRTCPTCPPlay
  | ReadRTPTCPRecord
  | ReadRTCPTCPRecord

datatype writeFunc =
    WritePacketRTPInQueueUDP
  | WritePacketRTCPInQueueUDP
  | WritePacketRTPInQueueTCP
  | WritePacketRTCPInQueueTCP

text \<open>The two closures that \<open>writePacketRTP\<close> and \<open>writePacketRTCP\<close> push, with the
  payload they capture.\<close>

datatype task =
    TaskWritePacketRTP "byte list"
  | TaskWritePacketRTCP "byte list"

datatype listener = UDPRTPListener | UDPRTCPListener

text \<open>Calls that leave this file, in the order they are made.\<close>

datatype event =
    DecodeError liberror
  | RTPUnmarshal "byte list"
  | RTCPUnmarshal "byte list"
  | SfStart serverSessionFormat
  | SfStop serverSessionFormat
  | SfReadRTPUDP serverSessionFormat rtp_packet gotime
  | SfReadRTPTCP serverSessionFormat rtp_packet
  | SfProcessSenderReport serverSessionFormat sender_report gotime
  | PacketRTCPCallback rtcp_packet
  | ListenerWrite listener "byte list" "udp_addr option"
  | ListenerAddClient listener ip int readFunc
  | ListenerRemoveClient listener ip int
  | ConnSetWriteDeadline gotime
  | ConnWriteInterleavedFrame interleaved_frame nat
  | SessionWritePacketRTP rtp_packet
  | SessionWritePacketRTCP rtcp_packet

text \<open>Constants and pure functions of other packages: \<open>udpMaxPayloadSize\<close>, the server's
  \<open>MaxPacketSize\<close> and \<open>WriteTimeout\<close>, and the parsers and serialisers of pion.\<close>

record env =
  udpMaxPayloadSize :: int
  MaxPacketSize :: nat
  WriteTimeout :: int
  rtpUnmarshal :: "byte list \<Rightarrow> string + rtp_packet"
  rtcpUnmarshal :: "byte list \<Rightarrow> string + rtcp_packet list"
  rtpMarshal :: "rtp_packet \<Rightarrow> byte list"
  rtcpMarshal :: "rtcp_packet \<Rightarrow> byte list"

text \<open>One \<open>serverSessionMedia\<close> together with what it reaches through \<open>sm.ss\<close> and
  \<open>sm.ss.s\<close>. \<open>tcpBuffer\<close> is a scratch buffer, kept by its length; \<open>tcpConn\<close> tells
  whether \<open>sm.ss.tcpConn\<close> is set. \<open>writer\<close> with \<open>writerCapacity\<close> is the session's write
  queue; \<open>udpRTPClients\<close> and \<open>udpRTCPClients\<close> are the client tables of the two shared
  listeners; \<open>trace\<close> logs the outgoing calls.\<close>

record state =
  tcpChannel :: int
  udpRTPReadPort :: int
  udpRTPWriteAddr :: "udp_addr option"
  udpRTCPReadPort :: int
  udpRTCPWriteAddr :: "udp_addr option"
  tcpRTPFrame :: "interleaved_frame option"
  tcpRTCPFrame :: "interleaved_frame option"
  tcpBuffer :: nat
  formats :: "8 word \<rightharpoonup> serverSessionFormat"
  writePacketRTPInQueue :: "writeFunc option"
  writePacketRTCPInQueue :: "writeFunc option"
  ss_state :: server_session_state
  setuppedTransport :: "transport option"
  authorIP :: ip
  tcpConn :: bool
  bytesSent :: "64 word"
  bytesReceived :: "64 word"
  udpLastPacketTime :: "64 word"
  writer :: "task list"
  writerCapacity :: nat
  tcpCallbackByChannel :: "(int \<rightharpoonup> readFunc) option"
  udpRTPClients :: "(ip \<times> int) \<rightharpoonup> readFunc"
  udpRTCPClients :: "(ip \<times> int) \<rightharpoonup> readFunc"
  trace :: "event list"

definition emit :: "event \<Rightarrow> state \<Rightarrow> state" where
  "emit e s = s\<lparr>trace := trace s @ [e]\<rparr>"

section \<open>Collaborators\<close>

text \<open>Modelled from the spec: the write queue (\<open>sm.ss.writer\<close>, declared elsewhere) is
  bounded and first-in first-out; \<open>push\<close> returns false when the queue is full.\<close>

definition push :: "task \<Rightarrow> state \<Rightarrow> bool \<times> state" where
  "push t s =
     (if length (writer s) < writerCapacity s
      then (True, s\<lparr>writer := writer s @ [t]\<rparr>)
      else (False, s))"

text \<open>Modelled from the spec: \<open>write(payload, address)\<close> of a shared UDP listener sends
  the payload to the address; its error is discarded by every caller here.\<close>

definition listenerWrite :: "listener \<Rightarrow> byte list \<Rightarrow> udp_addr option \<Rightarrow> state \<Rightarrow> state" where
  "listenerWrite l payload addr s = emit (ListenerWrite l payload addr) s"

section \<open>Outbound write path\<close>

definition writePacketRTPInQueueUDP :: "byte list \<Rightarrow> state \<Rightarrow> panic + state" where
  "writePacketRTPInQueueUDP payload s =
     (let s1 = s\<lparr>bytesSent := bytesSent s + of_nat (length payload)\<rparr>
      in Inr (listenerWrite UDPRTPListener payload (udpRTPWriteAddr s1) s1))"

definition writePacketRTCPInQueueUDP :: "byte list \<Rightarrow> state \<Rightarrow> panic + state" where
  "writePacketRTCPInQueueUDP payload s =
     (let s1 = s\<lparr>bytesSent := bytesSent s + of_nat (length payload)\<rparr>
      in Inr (listenerWrite UDPRTCPListener payload (udpRTCPWriteAddr s1) s1))"

definition writePacketRTPInQueueTCP ::
  "env \<Rightarrow> gotime \<Rightarrow> byte list \<Rightarrow> state \<Rightarrow> panic + state" where
  "writePacketRTPInQueueTCP ev wallNow payload s =
     (let s1 = s\<lparr>bytesSent := bytesSent s + of_nat (length payload)\<rparr>
      in case tcpRTPFrame s1 of
           None \<Rightarrow> Inl NilPointerDereference
         | Some fr \<Rightarrow>
             (let fr' = fr\<lparr>Payload := payload\<rparr>;
                  s2 = s1\<lparr>tcpRTPFrame := Some fr'\<rparr>
              in if \<not> tcpConn s2 then Inl NilPointerDereference
                 else Inr (emit (ConnWriteInterleavedFrame fr' (tcpBuffer s2))
                            (emit (ConnSetWriteDeadline (timeAdd wallNow (WriteTimeout ev))) s2))))"

definition writePacketRTCPInQueueTCP ::
  "env \<Rightarrow> gotime \<Rightarrow> byte list \<Rightarrow> state \<Rightarrow> panic + state" where
  "writePacketRTCPInQueueTCP ev wallNow payload s =
     (let s1 = s\<lparr>bytesSent := bytesSent s + of_nat (length payload)\<rparr>
      in case tcpRTCPFrame s1 of
           None \<Rightarrow> Inl NilPointerDereference
         | Some fr \<Rightarrow>
             (let fr' = fr\<lparr>Payload := payload\<rparr>;
                  s2 = s1\<lparr>tcpRTCPFrame := Some fr'\<rparr>
              in if \<not> tcpConn s2 then Inl NilPointerDereference
                 else Inr (emit (ConnWriteInterleavedFrame fr' (tcpBuffer s2))
                            (emit (ConnSetWriteDeadline (timeAdd wallNow (WriteTimeout ev))) s2))))"

text \<open>Calling the function stored in a write field; a nil field panics.\<close>

definition callWriteFunc ::
  "env \<Rightarrow> gotime \<Rightarrow> writeFunc option \<Rightarrow> byte list \<Rightarrow> state \<Rightarrow> panic + state" where
  "callWriteFunc ev wallNow f payload s =
     (case f of
        None \<Rightarrow> Inl NilPointerDereference
      | Some WritePacketRTPInQueueUDP \<Rightarrow> writePacketRTPInQueueUDP payload s
      | Some WritePacketRTCPInQueueUDP \<Rightarrow> writePacketRTCPInQueueUDP payload s
      | Some WritePacketRTPInQueueTCP \<Rightarrow> writePacketRTPInQueueTCP ev wallNow payload s
      | Some WritePacketRTCPInQueueTCP \<Rightarrow> writePacketRTCPInQueueTCP ev wallNow payload s)"

text \<open>The body of a queued closure, run by the queue's worker at wall-clock time
  \<open>wallNow\<close>: the write field is read when the closure runs.\<close>

definition runTask :: "env \<Rightarrow> gotime \<Rightarrow> task \<Rightarrow> state \<Rightarrow> panic + state" where
  "runTask ev wallNow t s =
     (case t of
        TaskWritePacketRTP payload \<Rightarrow> callWriteFunc ev wallNow (writePacketRTPInQueue s) payload s
      | TaskWritePacketRTCP payload \<Rightarrow> callWriteFunc ev wallNow (writePacketRTCPInQueue s) payload s)"

definition writePacketRTP :: "byte list \<Rightarrow> state \<Rightarrow> liberror option \<times> state" where
  "writePacketRTP payload s =
     (let (ok, s1) = push (TaskWritePacketRTP payload) s
      in if \<not> ok then (Some ErrServerWriteQueueFull, s1) else (None, s1))"

definition writePacketRTCP :: "byte list \<Rightarrow> state \<Rightarrow> liberror option \<times> state" where
  "writePacketRTCP payload s =
     (let (ok, s1) = push (TaskWritePacketRTCP payload) s
      in if \<not> ok then (Some ErrServerWriteQueueFull, s1) else (None, s1))"

section \<open>Inbound read path\<close>

definition onDecodeError :: "liberror \<Rightarrow> state \<Rightarrow> state" where
  "onDecodeError e s = emit (DecodeError e) s"

definition onPacketRTCP :: "rtcp_packet \<Rightarrow> state \<Rightarrow> state" where
  "onPacketRTCP pkt s = emit (PacketRTCPCallback pkt) s"

text \<open>Go leaves the order in which \<open>range\<close> visits a map unspecified, and it may differ
  from one loop to the next: the keys in the order of one loop are the first argument.\<close>

fun findFormatWithSSRC ::
  "8 word list \<Rightarrow> (8 word \<rightharpoonup> serverSessionFormat) \<Rightarrow> 32 word \<Rightarrow> serverSessionFormat option" where
  "findFormatWithSSRC [] fm ssrc = None"
| "findFormatWithSSRC (k # ks) fm ssrc =
     (case fm k of
        None \<Rightarrow> findFormatWithSSRC ks fm ssrc
      | Some format \<Rightarrow>
          (let (tssrc, ok) = SenderSSRC format
           in if ok \<and> tssrc = ssrc then Some format
              else findFormatWithSSRC ks fm ssrc))"

text \<open>The loop over the decoded packets in Play mode.\<close>

fun packetsPlay :: "rtcp_packet list \<Rightarrow> state \<Rightarrow> state" where
  "packetsPlay [] s = s"
| "packetsPlay (pkt # pkts) s = packetsPlay pkts (onPacketRTCP pkt s)"

text \<open>The loop over the decoded packets in Record mode; \<open>ord i\<close> is the order in which
  the map is visited by the lookup made for the packet at index \<open>i\<close>.\<close>

fun packetsRecord ::
  "(nat \<Rightarrow> 8 word list) \<Rightarrow> gotime \<Rightarrow> nat \<Rightarrow> rtcp_packet list \<Rightarrow> state \<Rightarrow> state" where
  "packetsRecord ord now i [] s = s"
| "packetsRecord ord now i (pkt # pkts) s =
     (let s1 = (case pkt of
                  SenderReport sr \<Rightarrow>
                    (case findFormatWithSSRC (ord i) (formats s) (sr_SSRC sr) of
                       None \<Rightarrow> s
                     | Some format \<Rightarrow> emit (SfProcessSenderReport format sr now) s)
                | ReceiverReport rr \<Rightarrow> s
                | OtherRTCP bs \<Rightarrow> s)
      in packetsRecord ord now (Suc i) pkts (onPacketRTCP pkt s1))"

definition readRTCPUDPPlay :: "env \<Rightarrow> gotime \<Rightarrow> byte list \<Rightarrow> state \<Rightarrow> state" where
  "readRTCPUDPPlay ev now payload s =
     (let plen = int (length payload);
          s1 = s\<lparr>bytesReceived := bytesReceived s + of_nat (length payload)\<rparr>
      in if plen = udpMaxPayloadSize ev + 1
         then onDecodeError ErrServerRTCPPacketTooBigUDP s1
         else (let s2 = emit (RTCPUnmarshal payload) s1
               in case rtcpUnmarshal ev payload of
                    Inl err \<Rightarrow> onDecodeError (ErrUnmarshal err) s2
                  | Inr packets \<Rightarrow>
                      packetsPlay packets (s2\<lparr>udpLastPacketTime := Unix now\<rparr>)))"

definition readRTPUDPRecord :: "env \<Rightarrow> gotime \<Rightarrow> byte list \<Rightarrow> state \<Rightarrow> state" where
  "readRTPUDPRecord ev now payload s =
     (let plen = int (length payload);
          s1 = s\<lparr>bytesReceived := bytesReceived s + of_nat (length payload)\<rparr>
      in if plen = udpMaxPayloadSize ev + 1
         then onDecodeError ErrServerRTPPacketTooBigUDP s1
         else (let s2 = emit (RTPUnmarshal payload) s1
               in case rtpUnmarshal ev payload of
                    Inl err \<Rightarrow> onDecodeError (ErrUnmarshal err) s2
                  | Inr pkt \<Rightarrow>
                      (case formats s2 (PayloadType pkt) of
                         None \<Rightarrow>
                           onDecodeError
                             (ErrServerRTPPacketUnknownPayloadType (PayloadType pkt)) s2
                       | Some forma \<Rightarrow>
                           emit (SfReadRTPUDP forma pkt now)
                             (s2\<lparr>udpLastPacketTime := Unix now\<rparr>))))"

definition readRTCPUDPRecord ::
  "env \<Rightarrow> (nat \<Rightarrow> 8 word list) \<Rightarrow> gotime \<Rightarrow> byte list \<Rightarrow> state \<Rightarrow> state" where
  "readRTCPUDPRecord ev ord now payload s =
     (let plen = int (length payload);
          s1 = s\<lparr>bytesReceived := bytesReceived s + of_nat (length payload)\<rparr>
      in if plen = udpMaxPayloadSize ev + 1
         then onDecodeError ErrServerRTCPPacketTooBigUDP s1
         else (let s2 = emit (RTCPUnmarshal payload) s1
               in case rtcpUnmarshal ev payload of
                    Inl err \<Rightarrow> onDecodeError (ErrUnmarshal err) s2
                  | Inr packets \<Rightarrow>
                      packetsRecord ord now 0 packets (s2\<lparr>udpLastPacketTime := Unix now\<rparr>)))"

definition readRTPTCPPlay :: "byte list \<Rightarrow> state \<Rightarrow> state" where
  "readRTPTCPPlay payload s = s"

definition readRTCPTCPPlay :: "env \<Rightarrow> byte list \<Rightarrow> state \<Rightarrow> state" where
  "readRTCPTCPPlay ev payload s =
     (if int (length payload) > udpMaxPayloadSize ev
      then onDecodeError
             (ErrServerRTCPPacketTooBig (int (length payload)) (udpMaxPayloadSize ev)) s
      else (let s2 = emit (RTCPUnmarshal payload) s
            in case rtcpUnmarshal ev payload of
                 Inl err \<Rightarrow> onDecodeError (ErrUnmarshal err) s2
               | Inr packets \<Rightarrow> packetsPlay packets s2))"

definition readRTPTCPRecord :: "env \<Rightarrow> byte list \<Rightarrow> state \<Rightarrow> state" where
  "readRTPTCPRecord ev payload s =
     (let s2 = emit (RTPUnmarshal payload) s
      in case rtpUnmarshal ev payload of
           Inl err \<Rightarrow> onDecodeError (ErrUnmarshal err) s2
         | Inr pkt \<Rightarrow>
             (case formats s2 (PayloadType pkt) of
                None \<Rightarrow>
                  onDecodeError (ErrServerRTPPacketUnknownPayloadType (PayloadType pkt)) s2
              | Some forma \<Rightarrow> emit (SfReadRTPTCP forma pkt) s2))"

definition readRTCPTCPRecord ::
  "env \<Rightarrow> (nat \<Rightarrow> 8 word list) \<Rightarrow> gotime \<Rightarrow> byte list \<Rightarrow> state \<Rightarrow> state" where
  "readRTCPTCPRecord ev ord now payload s =
     (if int (length payload) > udpMaxPayloadSize ev
      then onDecodeError
             (ErrServerRTCPPacketTooBig (int (length payload)) (udpMaxPayloadSize ev)) s
      else (let s2 = emit (RTCPUnmarshal payload) s
            in case rtcpUnmarshal ev payload of
                 Inl err \<Rightarrow> onDecodeError (ErrUnmarshal err) s2
               | Inr packets \<Rightarrow> packetsRecord ord now 0 packets s2))"

text \<open>Calling a registered read callback with a datagram or a frame; \<open>now\<close> is what
  \<open>timeNow\<close> returns during the call.\<close>

definition callReadFunc ::
  "env \<Rightarrow> (nat \<Rightarrow> 8 word list) \<Rightarrow> gotime \<Rightarrow> readFunc \<Rightarrow> byte list \<Rightarrow> state \<Rightarrow> state" where
  "callReadFunc ev ord now cb payload s =
     (case cb of
        ReadRTCPUDPPlay \<Rightarrow> readRTCPUDPPlay ev now payload s
      | ReadRTPUDPRecord \<Rightarrow> readRTPUDPRecord ev now payload s
      | ReadRTCPUDPRecord \<Rightarrow> readRTCPUDPRecord ev ord now payload s
      | ReadRTPTCPPlay \<Rightarrow> readRTPTCPPlay payload s
      | ReadRTCPTCPPlay \<Rightarrow> readRTCPTCPPlay ev payload s
      | ReadRTPTCPRecord \<Rightarrow> readRTPTCPRecord ev payload s
      | ReadRTCPTCPRecord \<Rightarrow> readRTCPTCPRecord ev ord now payload s)"

fun isTCPReadFunc :: "readFunc \<Rightarrow> bool" where
  "isTCPReadFunc ReadRTPTCPPlay = True"
| "isTCPReadFunc ReadRTCPTCPPlay = True"
| "isTCPReadFunc ReadRTPTCPRecord = True"
| "isTCPReadFunc ReadRTCPTCPRecord = True"
| "isTCPReadFunc cb = False"

text \<open>A sequence of deliveries: each entry names the callback, the time and order of
  that call, and the bytes delivered.\<close>

fun deliverAll ::
  "env \<Rightarrow> (readFunc \<times> (nat \<Rightarrow> 8 word list) \<times> gotime \<times> byte list) list \<Rightarrow> state \<Rightarrow> state" where
  "deliverAll ev [] s = s"
| "deliverAll ev ((cb, ord, now, payload) # ds) s =
     deliverAll ev ds (callReadFunc ev ord now cb payload s)"

section \<open>Shared UDP listeners\<close>

text \<open>Modelled from the spec: \<open>addClient(ip, port, callback)\<close> and
  \<open>removeClient(ip, port)\<close> of a shared UDP listener (declared elsewhere) keep a table of
  callbacks keyed by address and port, and a datagram is routed to the callback registered
  for its key, or to none.\<close>

definition addClient :: "listener \<Rightarrow> ip \<Rightarrow> int \<Rightarrow> readFunc \<Rightarrow> state \<Rightarrow> state" where
  "addClient l a port cb s =
     emit (ListenerAddClient l a port cb)
       (case l of
          UDPRTPListener \<Rightarrow> s\<lparr>udpRTPClients := (udpRTPClients s)((a, port) \<mapsto> cb)\<rparr>
        | UDPRTCPListener \<Rightarrow> s\<lparr>udpRTCPClients := (udpRTCPClients s)((a, port) \<mapsto> cb)\<rparr>)"

definition removeClient :: "listener \<Rightarrow> ip \<Rightarrow> int \<Rightarrow> state \<Rightarrow> state" where
  "removeClient l a port s =
     emit (ListenerRemoveClient l a port)
       (case l of
          UDPRTPListener \<Rightarrow> s\<lparr>udpRTPClients := (udpRTPClients s)((a, port) := None)\<rparr>
        | UDPRTCPListener \<Rightarrow> s\<lparr>udpRTCPClients := (udpRTCPClients s)((a, port) := None)\<rparr>)"

definition clientsOf :: "listener \<Rightarrow> state \<Rightarrow> ((ip \<times> int) \<rightharpoonup> readFunc)" where
  "clientsOf l s = (case l of UDPRTPListener \<Rightarrow> udpRTPClients s | UDPRTCPListener \<Rightarrow> udpRTCPClients s)"

definition deliverUDP ::
  "env \<Rightarrow> (nat \<Rightarrow> 8 word list) \<Rightarrow> gotime \<Rightarrow> listener \<Rightarrow> ip \<Rightarrow> int \<Rightarrow> byte list \<Rightarrow> state \<Rightarrow> state" where
  "deliverUDP ev ord now l a port payload s =
     (case clientsOf l s (a, port) of
        None \<Rightarrow> s
      | Some cb \<Rightarrow> callReadFunc ev ord now cb payload s)"

section \<open>Transport wiring\<close>

text \<open>Modelled from the spec: \<open>ServerSession.WritePacketRTP\<close> and \<open>WritePacketRTCP\<close>
  (declared elsewhere) serialise the packet and hand the bytes to the write operation of
  the media's transport, which queues them.\<close>

definition sessionWritePacketRTP :: "env \<Rightarrow> rtp_packet \<Rightarrow> state \<Rightarrow> liberror option \<times> state" where
  "sessionWritePacketRTP ev pkt s =
     writePacketRTP (rtpMarshal ev pkt) (emit (SessionWritePacketRTP pkt) s)"

definition sessionWritePacketRTCP :: "env \<Rightarrow> rtcp_packet \<Rightarrow> state \<Rightarrow> liberror option \<times> state" where
  "sessionWritePacketRTCP ev pkt s =
     writePacketRTCP (rtcpMarshal ev pkt) (emit (SessionWritePacketRTCP pkt) s)"

text \<open>The two packets that open the firewall: \<open>&rtp.Packet{Header: rtp.Header{Version: 2}}\<close>
  and \<open>&rtcp.ReceiverReport{}\<close>.\<close>

definition emptyRTP :: rtp_packet where
  "emptyRTP = \<lparr>Version = 2, PayloadType = 0, SequenceNumber = 0, Timestamp = 0,
               rtp_SSRC = 0, rtp_Payload = []\<rparr>"

definition emptyRR :: rtcp_packet where
  "emptyRR = ReceiverReport \<lparr>rr_SSRC = 0, rr_Reports = []\<rparr>"

text \<open>The per-format components in the order a \<open>range\<close> over the keys \<open>ks\<close> visits them.\<close>

definition rangeFormats ::
  "8 word list \<Rightarrow> (8 word \<rightharpoonup> serverSessionFormat) \<Rightarrow> serverSessionFormat list" where
  "rangeFormats ks fm = List.map_filter fm ks"

fun startFormats :: "serverSessionFormat list \<Rightarrow> state \<Rightarrow> state" where
  "startFormats [] s = s"
| "startFormats (sf # sfs) s = startFormats sfs (emit (SfStart sf) s)"

fun stopFormats :: "serverSessionFormat list \<Rightarrow> state \<Rightarrow> state" where
  "stopFormats [] s = s"
| "stopFormats (sf # sfs) s = stopFormats sfs (emit (SfStop sf) s)"

definition startUDP :: "env \<Rightarrow> transport \<Rightarrow> state \<Rightarrow> state" where
  "startUDP ev t s =
     (let s2 = s\<lparr>writePacketRTPInQueue := Some WritePacketRTPInQueueUDP,
                 writePacketRTCPInQueue := Some WritePacketRTCPInQueueUDP\<rparr>
      in if t = TransportUDP
         then (if ss_state s2 = ServerSessionStatePlay
               then addClient UDPRTCPListener (authorIP s2) (udpRTCPReadPort s2) ReadRTCPUDPPlay s2
               else (let s3 = snd (sessionWritePacketRTP ev emptyRTP s2);
                         s4 = snd (sessionWritePacketRTCP ev emptyRR s3);
                         s5 = addClient UDPRTPListener (authorIP s4) (udpRTPReadPort s4)
                                ReadRTPUDPRecord s4
                     in addClient UDPRTCPListener (authorIP s5) (udpRTCPReadPort s5)
                          ReadRTCPUDPRecord s5))
         else s2)"

definition startTCP :: "env \<Rightarrow> state \<Rightarrow> state" where
  "startTCP ev s =
     (let s2 = s\<lparr>writePacketRTPInQueue := Some WritePacketRTPInQueueTCP,
                 writePacketRTCPInQueue := Some WritePacketRTCPInQueueTCP\<rparr>;
          m = (case tcpCallbackByChannel s2 of None \<Rightarrow> Map.empty | Some m0 \<Rightarrow> m0);
          m' = (if ss_state s2 = ServerSessionStatePlay
                then (m(tcpChannel s2 \<mapsto> ReadRTPTCPPlay))(tcpChannel s2 + 1 \<mapsto> ReadRTCPTCPPlay)
                else (m(tcpChannel s2 \<mapsto> ReadRTPTCPRecord))(tcpChannel s2 + 1 \<mapsto> ReadRTCPTCPRecord))
      in s2\<lparr>tcpCallbackByChannel := Some m',
            tcpRTPFrame := Some \<lparr>Channel = tcpChannel s2, Payload = []\<rparr>,
            tcpRTCPFrame := Some \<lparr>Channel = tcpChannel s2 + 1, Payload = []\<rparr>,
            tcpBuffer := MaxPacketSize ev + 4\<rparr>)"

text \<open>\<open>start\<close> and \<open>stop\<close>; \<open>ks\<close> is the order of the loop over \<open>sm.formats\<close>. Reading
  through a nil \<open>setuppedTransport\<close> panics.\<close>

definition start :: "env \<Rightarrow> 8 word list \<Rightarrow> state \<Rightarrow> panic + state" where
  "start ev ks s =
     (let s1 = startFormats (rangeFormats ks (formats s)) s
      in case setuppedTransport s1 of
           None \<Rightarrow> Inl NilPointerDereference
         | Some TransportUDP \<Rightarrow> Inr (startUDP ev TransportUDP s1)
         | Some TransportUDPMulticast \<Rightarrow> Inr (startUDP ev TransportUDPMulticast s1)
         | Some TransportTCP \<Rightarrow> Inr (startTCP ev s1))"

definition stop :: "8 word list \<Rightarrow> state \<Rightarrow> panic + state" where
  "stop ks s =
     (case setuppedTransport s of
        None \<Rightarrow> Inl NilPointerDereference
      | Some t \<Rightarrow>
          (let s1 = (if t = TransportUDP
                     then removeClient UDPRTCPListener (authorIP s) (udpRTCPReadPort s)
                            (removeClient UDPRTPListener (authorIP s) (udpRTPReadPort s) s)
                     else s)
           in Inr (stopFormats (rangeFormats ks (formats s1)) s1)))"

section \<open>Observers of the trace\<close>

fun packetRTCPCallbackOf :: "event \<Rightarrow> rtcp_packet option" where
  "packetRTCPCallbackOf (PacketRTCPCallback p) = Some p"
| "packetRTCPCallbackOf e = None"

fun processSenderReportOf ::
  "event \<Rightarrow> (serverSessionFormat \<times> sender_report \<times> gotime) option" where
  "processSenderReportOf (SfProcessSenderReport f sr t) = Some (f, sr, t)"
| "processSenderReportOf e = None"

fun senderReportOf :: "rtcp_packet \<Rightarrow> sender_report option" where
  "senderReportOf (SenderReport sr) = Some sr"
| "senderReportOf p = None"

fun sfStartOf :: "event \<Rightarrow> serverSessionFormat option" where
  "sfStartOf (SfStart f) = Some f"
| "sfStartOf e = None"

fun sfStopOf :: "event \<Rightarrow> serverSessionFormat option" where
  "sfStopOf (SfStop f) = Some f"
| "sfStopOf e = None"

fun isListenerWrite :: "event \<Rightarrow> bool" where
  "isListenerWrite (ListenerWrite l p a) = True"
| "isListenerWrite e = False"

text \<open>The packets passed to \<open>onPacketRTCP\<close>, the calls of \<open>ProcessSenderReport\<close>, and the
  components started and stopped, each in the order of the trace; the Sender Reports among
  decoded packets.\<close>

definition callbacksOf :: "event list \<Rightarrow> rtcp_packet list" where
  "callbacksOf tr = List.map_filter packetRTCPCallbackOf tr"

definition senderReportsProcessed ::
  "event list \<Rightarrow> (serverSessionFormat \<times> sender_report \<times> gotime) list" where
  "senderReportsProcessed tr = List.map_filter processSenderReportOf tr"

definition senderReportsIn :: "rtcp_packet list \<Rightarrow> sender_report list" where
  "senderReportsIn pkts = List.map_filter senderReportOf pkts"

definition startedOf :: "event list \<Rightarrow> serverSessionFormat list" where
  "startedOf tr = List.map_filter sfStartOf tr"

definition stoppedOf :: "event list \<Rightarrow> serverSessionFormat list" where
  "stoppedOf tr = List.map_filter sfStopOf tr"

section \<open>Example inputs\<close>

text \<open>Stand-ins for the parsers and serialisers, a session in Record mode over unicast
  UDP with two formats, and a time.\<close>

definition exRtpUnmarshal :: "byte list \<Rightarrow> string + rtp_packet" where
  "exRtpUnmarshal bs =
     (case bs of
        b0 # b1 # rest \<Rightarrow>
          Inr \<lparr>Version = 2, PayloadType = b1, SequenceNumber = 0, Timestamp = 0,
               rtp_SSRC = 0, rtp_Payload = rest\<rparr>
      | _ \<Rightarrow> Inl ''RTP header size insufficient'')"

definition exSR :: sender_report where
  "exSR = \<lparr>sr_SSRC = 4660, NTPTime = 0, RTPTime = 0\<rparr>"

definition exRtcpUnmarshal :: "byte list \<Rightarrow> string + rtcp_packet list" where
  "exRtcpUnmarshal bs =
     (case bs of
        [] \<Rightarrow> Inl ''rtcp: packet too short''
      | b # rest \<Rightarrow>
          (if b = 200 then Inr [SenderReport exSR, OtherRTCP rest]
           else Inr [OtherRTCP (b # rest)]))"

definition exEnv :: env where
  "exEnv =
     \<lparr>udpMaxPayloadSize = 1472, MaxPacketSize = 1472, WriteTimeout = 10000000000,
      rtpUnmarshal = exRtpUnmarshal, rtcpUnmarshal = exRtcpUnmarshal,
      rtpMarshal = (\<lambda>pkt. [128, PayloadType pkt] @ rtp_Payload pkt),
      rtcpMarshal = (\<lambda>pkt. [128, 201, 0, 1, 0, 0, 0, 0])\<rparr>"

definition exSF96 :: serverSessionFormat where
  "exSF96 = \<lparr>sf_ptr = 1, SenderSSRC = (4660, True)\<rparr>"

definition exSF97 :: serverSessionFormat where
  "exSF97 = \<lparr>sf_ptr = 2, SenderSSRC = (0, False)\<rparr>"

definition exState :: state where
  "exState =
     \<lparr>tcpChannel = 0, udpRTPReadPort = 8000,
      udpRTPWriteAddr = Some ([10, 0, 0, 2], 5000),
      udpRTCPReadPort = 8001,
      udpRTCPWriteAddr = Some ([10, 0, 0, 2], 5001),
      tcpRTPFrame = None, tcpRTCPFrame = None, tcpBuffer = 0,
      formats = [96 \<mapsto> exSF96, 97 \<mapsto> exSF97],
      writePacketRTPInQueue = None, writePacketRTCPInQueue = None,
      ss_state = ServerSessionStateRecord,
      setuppedTransport = Some TransportUDP,
      authorIP = [10, 0, 0, 2], tcpConn = False,
      bytesSent = 0, bytesReceived = 0, udpLastPacketTime = 0,
      writer = [], writerCapacity = 256,
      tcpCallbackByChannel = None,
      udpRTPClients = Map.empty, udpRTCPClients = Map.empty,
      trace = []\<rparr>"

definition exStarted :: state where
  "exStarted = exState\<lparr>writePacketRTPInQueue := Some WritePacketRTPInQueueUDP,
                       writePacketRTCPInQueue := Some WritePacketRTCPInQueueUDP\<rparr>"

definition exFull :: state where
  "exFull = exState\<lparr>writer := [TaskWritePacketRTCP [128, 201]], writerCapacity := 1\<rparr>"

definition exNow :: gotime where
  "exNow = 1700000000000000000"

definition exAfterStart :: state where
  "exAfterStart =
     exState\<lparr>writePacketRTPInQueue := Some WritePacketRTPInQueueUDP,
             writePacketRTCPInQueue := Some WritePacketRTCPInQueueUDP,
             writer := [TaskWritePacketRTP [128, 0],
                        TaskWritePacketRTCP [128, 201, 0, 1, 0, 0, 0, 0]],
             udpRTPClients := [([10, 0, 0, 2], 8000) \<mapsto> ReadRTPUDPRecord],
             udpRTCPClients := [([10, 0, 0, 2], 8001) \<mapsto> ReadRTCPUDPRecord],
             trace := [SfStart exSF96, SfStart exSF97,
                       SessionWritePacketRTP emptyRTP, SessionWritePacketRTCP emptyRR,
                       ListenerAddClient UDPRTPListener [10, 0, 0, 2] 8000 ReadRTPUDPRecord,
                       ListenerAddClient UDPRTCPListener [10, 0, 0, 2] 8001 ReadRTCPUDPRecord]\<rparr>"

definition exAfterStartFull :: state where
  "exAfterStartFull =
     exFull\<lparr>writePacketRTPInQueue := Some WritePacketRTPInQueueUDP,
            writePacketRTCPInQueue := Some WritePacketRTCPInQueueUDP,
            udpRTPClients := [([10, 0, 0, 2], 8000) \<mapsto> ReadRTPUDPRecord],
            udpRTCPClients := [([10, 0, 0, 2], 8001) \<mapsto> ReadRTCPUDPRecord],
            trace := [SfStart exSF96, SfStart exSF97,
                      SessionWritePacketRTP emptyRTP, SessionWritePacketRTCP emptyRR,
                      ListenerAddClient UDPRTPListener [10, 0, 0, 2] 8000 ReadRTPUDPRecord,
                      ListenerAddClient UDPRTCPListener [10, 0, 0, 2] 8001 ReadRTCPUDPRecord]\<rparr>"

definition exAfterStop :: state where
  "exAfterStop =
     exAfterStart\<lparr>udpRTPClients := Map.empty, udpRTCPClients := Map.empty,
                  trace := trace exAfterStart @
                    [ListenerRemoveClient UDPRTPListener [10, 0, 0, 2] 8000,
                     ListenerRemoveClient UDPRTCPListener [10, 0, 0, 2] 8001,
                     SfStop exSF97, SfStop exSF96]\<rparr>"

definition exTCP :: state where
  "exTCP = exState\<lparr>setuppedTransport := Some TransportTCP, tcpConn := True\<rparr>"

definition exFrames :: "(readFunc \<times> (nat \<Rightarrow> 8 word list) \<times> gotime \<times> byte list) list" where
  "exFrames =
     [(ReadRTPTCPPlay, \<lambda>i. [96, 97], exNow, [1]),
      (ReadRTCPTCPPlay, \<lambda>i. [96, 97], exNow, [200, 1]),
      (ReadRTPTCPRecord, \<lambda>i. [96, 97], exNow, [128, 96, 7]),
      (ReadRTCPTCPRecord, \<lambda>i. [97, 96], exNow, [200, 1])]"

section \<open>Lemmas about the model\<close>

lemma emit_simps [simp]:
  "trace (emit e s) = trace s @ [e]"
  "formats (emit e s) = formats s"
  "bytesReceived (emit e s) = bytesReceived s"
  "udpLastPacketTime (emit e s) = udpLastPacketTime s"
  by (simp_all add: emit_def)

lemma runTask_bytesSent:
  "runTask ev wallNow t s = Inr s' \<Longrightarrow>
     bytesSent s' =
       bytesSent s + of_nat (length (case t of TaskWritePacketRTP p \<Rightarrow> p | TaskWritePacketRTCP p \<Rightarrow> p))"
  by (auto simp: runTask_def callWriteFunc_def writePacketRTPInQueueUDP_def
      writePacketRTCPInQueueUDP_def writePacketRTPInQueueTCP_def writePacketRTCPInQueueTCP_def
      listenerWrite_def emit_def Let_def
      split: task.splits option.splits writeFunc.splits if_splits)

lemma callbacksOf_simps [simp]:
  "callbacksOf [] = []"
  "callbacksOf (xs @ ys) = callbacksOf xs @ callbacksOf ys"
  "callbacksOf (e # es) = (case packetRTCPCallbackOf e of None \<Rightarrow> callbacksOf es | Some p \<Rightarrow> p # callbacksOf es)"
  by (simp_all add: callbacksOf_def List.map_filter_def split: option.splits)

lemma senderReportsProcessed_simps [simp]:
  "senderReportsProcessed [] = []"
  "senderReportsProcessed (xs @ ys) = senderReportsProcessed xs @ senderReportsProcessed ys"
  "senderReportsProcessed (e # es) =
     (case processSenderReportOf e of None \<Rightarrow> senderReportsProcessed es | Some p \<Rightarrow> p # senderReportsProcessed es)"
  by (simp_all add: senderReportsProcessed_def List.map_filter_def split: option.splits)

lemma senderReportsIn_simps [simp]:
  "senderReportsIn [] = []"
  "senderReportsIn (p # ps) = (case senderReportOf p of None \<Rightarrow> senderReportsIn ps | Some sr \<Rightarrow> sr # senderReportsIn ps)"
  by (simp_all add: senderReportsIn_def List.map_filter_def split: option.splits)

lemma packetsPlay_eq:
  "packetsPlay pkts s = s\<lparr>trace := trace s @ map PacketRTCPCallback pkts\<rparr>"
  by (induction pkts arbitrary: s) (simp_all add: onPacketRTCP_def emit_def)

lemma callbacksOf_map [simp]: "callbacksOf (map PacketRTCPCallback pkts) = pkts"
  by (induction pkts) simp_all

lemma senderReportsProcessed_map [simp]: "senderReportsProcessed (map PacketRTCPCallback pkts) = []"
  by (induction pkts) simp_all

lemma findFormatWithSSRC_Some:
  "findFormatWithSSRC ks fm ssrc = Some f \<Longrightarrow> f \<in> ran fm \<and> SenderSSRC f = (ssrc, True)"
  by (induction ks) (auto simp: ran_def split: option.splits prod.splits if_splits)

lemma findFormatWithSSRC_None:
  "findFormatWithSSRC ks fm ssrc = None \<Longrightarrow> k \<in> set ks \<Longrightarrow> fm k = Some f \<Longrightarrow>
     SenderSSRC f \<noteq> (ssrc, True)"
  by (induction ks) (auto split: option.splits prod.splits if_splits)

lemma findFormatWithSSRC_found_iff:
  assumes "dom fm \<subseteq> set ks"
  shows "findFormatWithSSRC ks fm ssrc \<noteq> None \<longleftrightarrow> (\<exists>f\<in>ran fm. SenderSSRC f = (ssrc, True))"
proof
  assume "findFormatWithSSRC ks fm ssrc \<noteq> None"
  then obtain f where "findFormatWithSSRC ks fm ssrc = Some f" by blast
  from findFormatWithSSRC_Some [OF this] show "\<exists>f\<in>ran fm. SenderSSRC f = (ssrc, True)" by blast
next
  assume "\<exists>f\<in>ran fm. SenderSSRC f = (ssrc, True)"
  then obtain k f where kf: "fm k = Some f" "SenderSSRC f = (ssrc, True)"
    by (auto simp: ran_def)
  with assms have "k \<in> set ks" by blast
  show "findFormatWithSSRC ks fm ssrc \<noteq> None"
  proof
    assume "findFormatWithSSRC ks fm ssrc = None"
    from findFormatWithSSRC_None [OF this \<open>k \<in> set ks\<close> kf(1)] kf(2) show False by simp
  qed
qed

lemma packetsRecord_frame [simp]:
  "formats (packetsRecord ord now i pkts s) = formats s"
  "bytesReceived (packetsRecord ord now i pkts s) = bytesReceived s"
  "udpLastPacketTime (packetsRecord ord now i pkts s) = udpLastPacketTime s"
  by (induction pkts arbitrary: s i;
      simp add: onPacketRTCP_def Let_def split: rtcp_packet.splits option.splits)+

lemma packetsRecord_trace:
  assumes "\<forall>j. dom (formats s) \<subseteq> set (ord j)"
  shows "\<exists>new. trace (packetsRecord ord now i pkts s) = trace s @ new \<and>
           callbacksOf new = pkts \<and>
           map (\<lambda>(f, sr, t). (sr, t)) (senderReportsProcessed new) =
             map (\<lambda>sr. (sr, now))
               (filter (\<lambda>sr. \<exists>f\<in>ran (formats s). SenderSSRC f = (sr_SSRC sr, True))
                  (senderReportsIn pkts)) \<and>
           (\<forall>(f, sr, t) \<in> set (senderReportsProcessed new).
               f \<in> ran (formats s) \<and> SenderSSRC f = (sr_SSRC sr, True))"
  using assms
proof (induction pkts arbitrary: s i)
  case Nil
  then show ?case by simp
next
  case (Cons pkt pkts)
  let ?pre = "(case pkt of
                 SenderReport sr \<Rightarrow>
                   (case findFormatWithSSRC (ord i) (formats s) (sr_SSRC sr) of
                      None \<Rightarrow> []
                    | Some format \<Rightarrow> [SfProcessSenderReport format sr now])
               | ReceiverReport rr \<Rightarrow> []
               | OtherRTCP bs \<Rightarrow> [])"
  let ?s2 = "s\<lparr>trace := trace s @ ?pre @ [PacketRTCPCallback pkt]\<rparr>"
  have step: "packetsRecord ord now i (pkt # pkts) s = packetsRecord ord now (Suc i) pkts ?s2"
    by (simp add: onPacketRTCP_def emit_def Let_def split: rtcp_packet.splits option.splits)
  have fm: "formats ?s2 = formats s" by simp
  from Cons.prems have "\<forall>j. dom (formats ?s2) \<subseteq> set (ord j)" by simp
  from Cons.IH [OF this, of "Suc i"] obtain new where
    new: "trace (packetsRecord ord now (Suc i) pkts ?s2) = trace ?s2 @ new"
      "callbacksOf new = pkts"
      "map (\<lambda>(f, sr, t). (sr, t)) (senderReportsProcessed new) =
         map (\<lambda>sr. (sr, now))
           (filter (\<lambda>sr. \<exists>f\<in>ran (formats s). SenderSSRC f = (sr_SSRC sr, True))
              (senderReportsIn pkts))"
      "\<forall>(f, sr, t) \<in> set (senderReportsProcessed new).
          f \<in> ran (formats s) \<and> SenderSSRC f = (sr_SSRC sr, True)"
    unfolding fm by blast
  have iff: "\<And>ssrc. findFormatWithSSRC (ord i) (formats s) ssrc = None \<longleftrightarrow>
               (\<forall>f\<in>ran (formats s). SenderSSRC f \<noteq> (ssrc, True))"
    using Cons.prems findFormatWithSSRC_found_iff [of "formats s" "ord i"] by blast
  have pre_cb: "callbacksOf ?pre = []"
    by (simp split: rtcp_packet.splits option.splits)
  have pre_sr: "map (\<lambda>(f, sr, t). (sr, t)) (senderReportsProcessed ?pre) =
      map (\<lambda>sr. (sr, now))
        (filter (\<lambda>sr. \<exists>f\<in>ran (formats s). SenderSSRC f = (sr_SSRC sr, True))
           (senderReportsIn [pkt]))"
    using iff by (auto split: rtcp_packet.splits option.splits dest: findFormatWithSSRC_Some)
  have pre_ok: "\<forall>(f, sr, t) \<in> set (senderReportsProcessed ?pre).
          f \<in> ran (formats s) \<and> SenderSSRC f = (sr_SSRC sr, True)"
    by (auto split: rtcp_packet.splits option.splits dest: findFormatWithSSRC_Some)
  have split_in: "senderReportsIn (pkt # pkts) = senderReportsIn [pkt] @ senderReportsIn pkts"
    by (simp split: option.splits)
  let ?new = "?pre @ [PacketRTCPCallback pkt] @ new"
  have "trace (packetsRecord ord now i (pkt # pkts) s) = trace s @ ?new"
    using step new(1) by simp
  moreover have "callbacksOf ?new = pkt # pkts"
    using pre_cb new(2) by simp
  moreover have "map (\<lambda>(f, sr, t). (sr, t)) (senderReportsProcessed ?new) =
      map (\<lambda>sr. (sr, now))
        (filter (\<lambda>sr. \<exists>f\<in>ran (formats s). SenderSSRC f = (sr_SSRC sr, True))
           (senderReportsIn (pkt # pkts)))"
    unfolding split_in using pre_sr new(3) by simp
  moreover have "\<forall>(f, sr, t) \<in> set (senderReportsProcessed ?new).
          f \<in> ran (formats s) \<and> SenderSSRC f = (sr_SSRC sr, True)"
    using pre_ok new(4) by auto
  ultimately show ?case by blast
qed

lemma packetsRecord_trace_noerr:
  "\<exists>new. trace (packetsRecord ord now i pkts s) = trace s @ new \<and>
         (\<forall>e. DecodeError e \<notin> set new)"
proof (induction pkts arbitrary: s i)
  case Nil
  then show ?case by simp
next
  case (Cons pkt pkts)
  let ?s1 = "(case pkt of
                  SenderReport sr \<Rightarrow>
                    (case findFormatWithSSRC (ord i) (formats s) (sr_SSRC sr) of
                       None \<Rightarrow> s
                     | Some format \<Rightarrow> emit (SfProcessSenderReport format sr now) s)
                | ReceiverReport rr \<Rightarrow> s
                | OtherRTCP bs \<Rightarrow> s)"
  have "\<exists>pre. trace ?s1 = trace s @ pre \<and> (\<forall>e. DecodeError e \<notin> set pre)"
  proof (cases pkt)
    case (SenderReport sr)
    then show ?thesis
      by (cases "findFormatWithSSRC (ord i) (formats s) (sr_SSRC sr)") simp_all
  qed simp_all
  then obtain pre where pre: "trace ?s1 = trace s @ pre" "\<forall>e. DecodeError e \<notin> set pre"
    by blast
  from Cons.IH [of "Suc i" "onPacketRTCP pkt ?s1"] obtain new where
    new: "trace (packetsRecord ord now (Suc i) pkts (onPacketRTCP pkt ?s1)) =
            trace (onPacketRTCP pkt ?s1) @ new" "\<forall>e. DecodeError e \<notin> set new"
    by blast
  have "trace (packetsRecord ord now i (pkt # pkts) s) =
          trace s @ (pre @ [PacketRTCPCallback pkt] @ new)"
    using new(1) pre(1) by (simp add: onPacketRTCP_def Let_def)
  moreover have "\<forall>e. DecodeError e \<notin> set (pre @ [PacketRTCPCallback pkt] @ new)"
    using pre(2) new(2) by simp
  ultimately show ?case by blast
qed

lemma callReadFunc_tcp_frame:
  "isTCPReadFunc cb \<Longrightarrow>
     bytesReceived (callReadFunc ev ord now cb payload s) = bytesReceived s \<and>
     udpLastPacketTime (callReadFunc ev ord now cb payload s) = udpLastPacketTime s"
  by (cases cb)
     (auto simp: callReadFunc_def readRTPTCPPlay_def readRTCPTCPPlay_def readRTPTCPRecord_def
        readRTCPTCPRecord_def onDecodeError_def Let_def packetsPlay_eq
        split: sum.splits option.splits)

lemma startFormats_eq: "startFormats fs s = s\<lparr>trace := trace s @ map SfStart fs\<rparr>"
  by (induction fs arbitrary: s) (simp_all add: emit_def)

lemma stopFormats_eq: "stopFormats fs s = s\<lparr>trace := trace s @ map SfStop fs\<rparr>"
  by (induction fs arbitrary: s) (simp_all add: emit_def)

lemma startedOf_map [simp]: "startedOf (map SfStart fs) = fs"
  by (induction fs) (simp_all add: startedOf_def List.map_filter_def)

lemma stoppedOf_map [simp]: "stoppedOf (map SfStop fs) = fs"
  by (induction fs) (simp_all add: stoppedOf_def List.map_filter_def)

lemma startedOf_append [simp]: "startedOf (xs @ ys) = startedOf xs @ startedOf ys"
  by (simp add: startedOf_def List.map_filter_def)

lemma stoppedOf_append [simp]: "stoppedOf (xs @ ys) = stoppedOf xs @ stoppedOf ys"
  by (simp add: stoppedOf_def List.map_filter_def)

lemma mset_rangeFormats:
  "mset ks = mset ks' \<Longrightarrow> mset (rangeFormats ks fm) = mset (rangeFormats ks' fm)"
  proof -
  assume eq: "mset ks = mset ks'"
  have "\<And>xs. mset (rangeFormats xs fm) =
          image_mset (the \<circ> fm) (filter_mset (\<lambda>k. fm k \<noteq> None) (mset xs))"
    by (simp add: rangeFormats_def List.map_filter_def)
  with eq show ?thesis by simp
qed

text \<open>What \<open>start\<close> and \<open>stop\<close> do, by transport and mode.\<close>

lemma start_UDP_Record:
  assumes "setuppedTransport s = Some TransportUDP" "ss_state s \<noteq> ServerSessionStatePlay"
  shows "start ev ks s =
    Inr (s\<lparr>writePacketRTPInQueue := Some WritePacketRTPInQueueUDP,
           writePacketRTCPInQueue := Some WritePacketRTCPInQueueUDP,
           writer :=
             (if length (writer s) < writerCapacity s
              then (if Suc (length (writer s)) < writerCapacity s
                    then writer s @ [TaskWritePacketRTP (rtpMarshal ev emptyRTP),
                                     TaskWritePacketRTCP (rtcpMarshal ev emptyRR)]
                    else writer s @ [TaskWritePacketRTP (rtpMarshal ev emptyRTP)])
              else writer s),
           udpRTPClients := (udpRTPClients s)((authorIP s, udpRTPReadPort s) \<mapsto> ReadRTPUDPRecord),
           udpRTCPClients := (udpRTCPClients s)((authorIP s, udpRTCPReadPort s) \<mapsto> ReadRTCPUDPRecord),
           trace := trace s @ map SfStart (rangeFormats ks (formats s)) @
             [SessionWritePacketRTP emptyRTP, SessionWritePacketRTCP emptyRR,
              ListenerAddClient UDPRTPListener (authorIP s) (udpRTPReadPort s) ReadRTPUDPRecord,
              ListenerAddClient UDPRTCPListener (authorIP s) (udpRTCPReadPort s) ReadRTCPUDPRecord]\<rparr>)"
  using assms
  by (simp add: start_def startFormats_eq startUDP_def sessionWritePacketRTP_def
      sessionWritePacketRTCP_def writePacketRTP_def writePacketRTCP_def push_def addClient_def
      emit_def Let_def)

lemma start_UDP_Play:
  assumes "setuppedTransport s = Some TransportUDP" "ss_state s = ServerSessionStatePlay"
  shows "start ev ks s =
    Inr (s\<lparr>writePacketRTPInQueue := Some WritePacketRTPInQueueUDP,
           writePacketRTCPInQueue := Some WritePacketRTCPInQueueUDP,
           udpRTCPClients := (udpRTCPClients s)((authorIP s, udpRTCPReadPort s) \<mapsto> ReadRTCPUDPPlay),
           trace := trace s @ map SfStart (rangeFormats ks (formats s)) @
             [ListenerAddClient UDPRTCPListener (authorIP s) (udpRTCPReadPort s) ReadRTCPUDPPlay]\<rparr>)"
  using assms
  by (simp add: start_def startFormats_eq startUDP_def addClient_def emit_def Let_def)

lemma start_Multicast:
  assumes "setuppedTransport s = Some TransportUDPMulticast"
  shows "start ev ks s =
    Inr (s\<lparr>writePacketRTPInQueue := Some WritePacketRTPInQueueUDP,
           writePacketRTCPInQueue := Some WritePacketRTCPInQueueUDP,
           trace := trace s @ map SfStart (rangeFormats ks (formats s))\<rparr>)"
  using assms
  by (simp add: start_def startFormats_eq startUDP_def Let_def)

lemma start_TCP_frame:
  assumes "setuppedTransport s = Some TransportTCP"
  shows "\<exists>s1. start ev ks s = Inr s1 \<and>
           trace s1 = trace s @ map SfStart (rangeFormats ks (formats s)) \<and>
           udpRTPClients s1 = udpRTPClients s \<and> udpRTCPClients s1 = udpRTCPClients s \<and>
           formats s1 = formats s \<and> setuppedTransport s1 = setuppedTransport s \<and>
           authorIP s1 = authorIP s \<and> udpRTPReadPort s1 = udpRTPReadPort s \<and>
           udpRTCPReadPort s1 = udpRTCPReadPort s"
  using assms
  by (simp add: start_def startFormats_eq startTCP_def Let_def)

lemma start_frame:
  assumes "start ev ks s = Inr s1"
  shows "(\<exists>regs. trace s1 = trace s @ map SfStart (rangeFormats ks (formats s)) @ regs \<and>
            startedOf regs = [] \<and> stoppedOf regs = []) \<and>
         formats s1 = formats s \<and> setuppedTransport s1 = setuppedTransport s \<and>
         authorIP s1 = authorIP s \<and> udpRTPReadPort s1 = udpRTPReadPort s \<and>
         udpRTCPReadPort s1 = udpRTCPReadPort s \<and>
         (setuppedTransport s \<noteq> Some TransportUDP \<longrightarrow>
            udpRTPClients s1 = udpRTPClients s \<and> udpRTCPClients s1 = udpRTCPClients s)"
proof -
  from assms obtain t where t: "setuppedTransport s = Some t"
    by (cases "setuppedTransport s") (simp_all add: start_def startFormats_eq Let_def)
  show ?thesis
  proof (cases t)
    case TransportUDP
    show ?thesis
    proof (cases "ss_state s = ServerSessionStatePlay")
      case True
      from start_UDP_Play [OF t [unfolded TransportUDP] True, of ev ks] assms t TransportUDP
      show ?thesis
        by (auto simp: startedOf_def stoppedOf_def List.map_filter_def)
    next
      case False
      from start_UDP_Record [OF t [unfolded TransportUDP] False, of ev ks] assms t TransportUDP
      show ?thesis
        by (auto simp: startedOf_def stoppedOf_def List.map_filter_def)
    qed
  next
    case TransportUDPMulticast
    from start_Multicast [OF t [unfolded TransportUDPMulticast], of ev ks] assms t
      TransportUDPMulticast
    show ?thesis
      by (auto simp: startedOf_def stoppedOf_def List.map_filter_def)
  next
    case TransportTCP
    from start_TCP_frame [OF t [unfolded TransportTCP], of ev ks] assms t TransportTCP
    show ?thesis
      by (auto simp: startedOf_def stoppedOf_def List.map_filter_def)
  qed
qed

lemma stop_eq:
  assumes "setuppedTransport s = Some t"
  shows "stop ks s =
    Inr (if t = TransportUDP
         then s\<lparr>udpRTPClients := (udpRTPClients s)((authorIP s, udpRTPReadPort s) := None),
                udpRTCPClients := (udpRTCPClients s)((authorIP s, udpRTCPReadPort s) := None),
                trace := trace s @
                  [ListenerRemoveClient UDPRTPListener (authorIP s) (udpRTPReadPort s),
                   ListenerRemoveClient UDPRTCPListener (authorIP s) (udpRTCPReadPort s)] @
                  map SfStop (rangeFormats ks (formats s))\<rparr>
         else s\<lparr>trace := trace s @ map SfStop (rangeFormats ks (formats s))\<rparr>)"
  using assms
  by (simp add: stop_def stopFormats_eq removeClient_def emit_def Let_def)

lemma set_rangeFormats: "dom fm \<subseteq> set ks \<Longrightarrow> set (rangeFormats ks fm) = ran fm"
  by (force simp: rangeFormats_def List.map_filter_def ran_def dom_def)

lemma ex_rangeFormats: "rangeFormats [96, 97] (formats exState) = [exSF96, exSF97]"
  by (simp add: rangeFormats_def List.map_filter_def exState_def)

lemma ex_start: "start exEnv [96, 97] exState = Inr exAfterStart"
proof -
  have h: "setuppedTransport exState = Some TransportUDP"
    "ss_state exState \<noteq> ServerSessionStatePlay"
    by (simp_all add: exState_def)
  have m: "rtpMarshal exEnv emptyRTP = [128, 0]"
    "rtcpMarshal exEnv emptyRR = [128, 201, 0, 1, 0, 0, 0, 0]"
    by (simp_all add: exEnv_def emptyRTP_def)
  show ?thesis
    unfolding start_UDP_Record [OF h] ex_rangeFormats m
    by (simp add: exAfterStart_def exState_def)
qed

lemma ex_start_full: "start exEnv [96, 97] exFull = Inr exAfterStartFull"
proof -
  have h: "setuppedTransport exFull = Some TransportUDP"
    "ss_state exFull \<noteq> ServerSessionStatePlay"
    by (simp_all add: exFull_def exState_def)
  have f: "formats exFull = formats exState"
    by (simp add: exFull_def)
  show ?thesis
    unfolding start_UDP_Record [OF h] f ex_rangeFormats
    by (simp add: exAfterStartFull_def exFull_def exState_def)
qed

lemma ex_stop: "stop [97, 96] exAfterStart = Inr exAfterStop"
proof -
  have t: "setuppedTransport exAfterStart = Some TransportUDP"
    by (simp add: exAfterStart_def exState_def)
  have r: "rangeFormats [97, 96] (formats exAfterStart) = [exSF97, exSF96]"
    by (simp add: rangeFormats_def List.map_filter_def exAfterStart_def exState_def)
  show ?thesis
    unfolding stop_eq [OF t] r
    by (simp add: exAfterStop_def exAfterStart_def exState_def)
qed

section \<open>Outbound write path: the byte counter and the full queue\<close>

text \<open>C9: when the write queue is full (\<open>push\<close> returns false), \<open>writePacketRTP\<close> and
  \<open>writePacketRTCP\<close> return the queue-full error and leave the whole state as it was; so
  the outbound byte counter is not incremented and no closure is queued.\<close>

theorem C9_queue_full_leaves_state:
  "(\<not> fst (push (TaskWritePacketRTP payload) s) \<longrightarrow>
      writePacketRTP payload s = (Some ErrServerWriteQueueFull, s)) \<and>
   (\<not> fst (push (TaskWritePacketRTCP payload) s) \<longrightarrow>
      writePacketRTCP payload s = (Some ErrServerWriteQueueFull, s))"
  by (simp add: writePacketRTP_def writePacketRTCP_def push_def)

theorem C9_queue_full_witness:
  "\<not> fst (push (TaskWritePacketRTP [1, 2, 3]) exFull) \<and>
   \<not> fst (push (TaskWritePacketRTCP [1, 2, 3]) exFull) \<and>
   writePacketRTP [1, 2, 3] exFull = (Some ErrServerWriteQueueFull, exFull) \<and>
   writePacketRTCP [1, 2, 3] exFull = (Some ErrServerWriteQueueFull, exFull) \<and>
   bytesSent (snd (writePacketRTP [1, 2, 3] exFull)) = 0"
proof -
  have h1: "\<not> fst (push (TaskWritePacketRTP [1, 2, 3]) exFull)"
    by (simp add: push_def exFull_def exState_def)
  have h2: "\<not> fst (push (TaskWritePacketRTCP [1, 2, 3]) exFull)"
    by (simp add: push_def exFull_def exState_def)
  have b: "bytesSent exFull = 0"
    by (simp add: exFull_def exState_def)
  from h1 h2 b C9_queue_full_leaves_state [of "[1, 2, 3]" exFull] show ?thesis
    by simp
qed

text \<open>C1, as stated, fails: a payload accepted by \<open>writePacketRTP\<close> or
  \<open>writePacketRTCP\<close> has only been queued, and the outbound byte counter still has its
  old value when the call returns.\<close>

theorem C1_counter_unchanged_at_acceptance:
  "fst (writePacketRTP [1, 2, 3] exStarted) = None \<and>
   bytesSent (snd (writePacketRTP [1, 2, 3] exStarted))
     \<noteq> bytesSent exStarted + of_nat (length [1, 2, 3 :: byte]) \<and>
   fst (writePacketRTCP [1, 2, 3] exStarted) = None \<and>
   bytesSent (snd (writePacketRTCP [1, 2, 3] exStarted))
     \<noteq> bytesSent exStarted + of_nat (length [1, 2, 3 :: byte])"
  by (simp add: writePacketRTP_def writePacketRTCP_def push_def exStarted_def exState_def)

text \<open>C1, amended: accepting a payload appends the closure to the write queue and
  changes nothing else, so the outbound byte counter keeps its value; the counter is
  incremented by the payload length (modulo \<open>2^64\<close>) when the queue worker runs the
  closure, whichever function the write field holds, and the UDP functions increment it and
  then write the payload to the stored remote address.\<close>

theorem C1_counter_incremented_by_closure:
  "(fst (writePacketRTP payload s) = None \<longrightarrow>
      snd (writePacketRTP payload s) = s\<lparr>writer := writer s @ [TaskWritePacketRTP payload]\<rparr>) \<and>
   (fst (writePacketRTCP payload s) = None \<longrightarrow>
      snd (writePacketRTCP payload s) = s\<lparr>writer := writer s @ [TaskWritePacketRTCP payload]\<rparr>) \<and>
   (runTask ev wallNow (TaskWritePacketRTP payload) s = Inr s' \<longrightarrow>
      bytesSent s' = bytesSent s + of_nat (length payload)) \<and>
   (runTask ev wallNow (TaskWritePacketRTCP payload) s = Inr s'' \<longrightarrow>
      bytesSent s'' = bytesSent s + of_nat (length payload)) \<and>
   (writePacketRTPInQueue s = Some WritePacketRTPInQueueUDP \<longrightarrow>
      runTask ev wallNow (TaskWritePacketRTP payload) s =
        Inr (s\<lparr>bytesSent := bytesSent s + of_nat (length payload),
               trace := trace s @ [ListenerWrite UDPRTPListener payload (udpRTPWriteAddr s)]\<rparr>)) \<and>
   (writePacketRTCPInQueue s = Some WritePacketRTCPInQueueUDP \<longrightarrow>
      runTask ev wallNow (TaskWritePacketRTCP payload) s =
        Inr (s\<lparr>bytesSent := bytesSent s + of_nat (length payload),
               trace := trace s @ [ListenerWrite UDPRTCPListener payload (udpRTCPWriteAddr s)]\<rparr>))"
proof -
  have a: "fst (writePacketRTP payload s) = None \<longrightarrow>
      snd (writePacketRTP payload s) = s\<lparr>writer := writer s @ [TaskWritePacketRTP payload]\<rparr>"
    by (simp add: writePacketRTP_def push_def)
  have b: "fst (writePacketRTCP payload s) = None \<longrightarrow>
      snd (writePacketRTCP payload s) = s\<lparr>writer := writer s @ [TaskWritePacketRTCP payload]\<rparr>"
    by (simp add: writePacketRTCP_def push_def)
  have c: "runTask ev wallNow (TaskWritePacketRTP payload) s = Inr s' \<longrightarrow>
      bytesSent s' = bytesSent s + of_nat (length payload)"
    using runTask_bytesSent [of ev wallNow "TaskWritePacketRTP payload" s s'] by simp
  have d: "runTask ev wallNow (TaskWritePacketRTCP payload) s = Inr s'' \<longrightarrow>
      bytesSent s'' = bytesSent s + of_nat (length payload)"
    using runTask_bytesSent [of ev wallNow "TaskWritePacketRTCP payload" s s''] by simp
  have e: "writePacketRTPInQueue s = Some WritePacketRTPInQueueUDP \<longrightarrow>
      runTask ev wallNow (TaskWritePacketRTP payload) s =
        Inr (s\<lparr>bytesSent := bytesSent s + of_nat (length payload),
               trace := trace s @ [ListenerWrite UDPRTPListener payload (udpRTPWriteAddr s)]\<rparr>)"
    by (simp add: runTask_def callWriteFunc_def writePacketRTPInQueueUDP_def listenerWrite_def
        emit_def Let_def)
  have f: "writePacketRTCPInQueue s = Some WritePacketRTCPInQueueUDP \<longrightarrow>
      runTask ev wallNow (TaskWritePacketRTCP payload) s =
        Inr (s\<lparr>bytesSent := bytesSent s + of_nat (length payload),
               trace := trace s @ [ListenerWrite UDPRTCPListener payload (udpRTCPWriteAddr s)]\<rparr>)"
    by (simp add: runTask_def callWriteFunc_def writePacketRTCPInQueueUDP_def listenerWrite_def
        emit_def Let_def)
  from a b c d e f show ?thesis by blast
qed

theorem C1_witness:
  "fst (writePacketRTP [1, 2, 3] exStarted) = None \<and>
   fst (writePacketRTCP [1, 2, 3] exStarted) = None \<and>
   writePacketRTPInQueue exStarted = Some WritePacketRTPInQueueUDP \<and>
   writePacketRTCPInQueue exStarted = Some WritePacketRTCPInQueueUDP \<and>
   bytesSent (snd (writePacketRTP [1, 2, 3] exStarted)) = 0 \<and>
   bytesSent (snd (writePacketRTCP [1, 2, 3] exStarted)) = 0 \<and>
   runTask exEnv exNow (TaskWritePacketRTP [1, 2, 3]) exStarted =
     Inr (exStarted\<lparr>bytesSent := 3,
            trace := [ListenerWrite UDPRTPListener [1, 2, 3] (Some ([10, 0, 0, 2], 5000))]\<rparr>) \<and>
   runTask exEnv exNow (TaskWritePacketRTCP [1, 2, 3]) exStarted =
     Inr (exStarted\<lparr>bytesSent := 3,
            trace := [ListenerWrite UDPRTCPListener [1, 2, 3] (Some ([10, 0, 0, 2], 5001))]\<rparr>)"
proof -
  have h1: "fst (writePacketRTP [1, 2, 3] exStarted) = None"
    by (simp add: writePacketRTP_def push_def exStarted_def exState_def)
  have h2: "fst (writePacketRTCP [1, 2, 3] exStarted) = None"
    by (simp add: writePacketRTCP_def push_def exStarted_def exState_def)
  have h3: "writePacketRTPInQueue exStarted = Some WritePacketRTPInQueueUDP"
    by (simp add: exStarted_def)
  have h4: "writePacketRTCPInQueue exStarted = Some WritePacketRTCPInQueueUDP"
    by (simp add: exStarted_def)
  have v: "bytesSent exStarted = 0" "trace exStarted = []"
    "udpRTPWriteAddr exStarted = Some ([10, 0, 0, 2], 5000)"
    "udpRTCPWriteAddr exStarted = Some ([10, 0, 0, 2], 5001)"
    by (simp_all add: exStarted_def exState_def)
  let ?r = "exStarted\<lparr>bytesSent := 3,
            trace := [ListenerWrite UDPRTPListener [1, 2, 3] (Some ([10, 0, 0, 2], 5000))]\<rparr>"
  let ?c = "exStarted\<lparr>bytesSent := 3,
            trace := [ListenerWrite UDPRTCPListener [1, 2, 3] (Some ([10, 0, 0, 2], 5001))]\<rparr>"
  from h1 h2 h3 h4 v
    C1_counter_incremented_by_closure [of "[1, 2, 3]" exStarted exEnv exNow ?r ?c]
  show ?thesis by simp
qed

section \<open>Inbound UDP: the last-activity timestamp\<close>

text \<open>C2, as stated, fails: in \<open>readRTPUDPRecord\<close> the lookup in \<open>formats\<close> comes before
  the timestamp is stored, so a datagram that unmarshals to a payload type absent from
  \<open>formats\<close> leaves the last-UDP-activity timestamp as it was.\<close>

theorem C2_unknown_type_keeps_timestamp:
  "int (length [128, 98, 7 :: byte]) \<noteq> udpMaxPayloadSize exEnv + 1 \<and>
   rtpUnmarshal exEnv [128, 98, 7] =
     Inr \<lparr>Version = 2, PayloadType = 98, SequenceNumber = 0, Timestamp = 0,
          rtp_SSRC = 0, rtp_Payload = [7]\<rparr> \<and>
   formats exState 98 = None \<and>
   udpLastPacketTime (readRTPUDPRecord exEnv exNow [128, 98, 7] exState) = udpLastPacketTime exState \<and>
   udpLastPacketTime (readRTPUDPRecord exEnv exNow [128, 98, 7] exState) \<noteq> Unix exNow"
  by (simp add: readRTPUDPRecord_def exEnv_def exRtpUnmarshal_def exState_def exNow_def Unix_def
      onDecodeError_def Let_def)

text \<open>C2, amended: for a datagram that is not of the sentinel length and unmarshals, the
  current time is recorded as the last-UDP-activity timestamp when the payload type is
  present in \<open>formats\<close>, and the timestamp is unchanged when it is absent.\<close>

theorem C2_timestamp_after_lookup:
  assumes "int (length payload) \<noteq> udpMaxPayloadSize ev + 1"
      and "rtpUnmarshal ev payload = Inr pkt"
  shows "(formats s (PayloadType pkt) \<noteq> None \<longrightarrow>
            udpLastPacketTime (readRTPUDPRecord ev now payload s) = Unix now) \<and>
         (formats s (PayloadType pkt) = None \<longrightarrow>
            udpLastPacketTime (readRTPUDPRecord ev now payload s) = udpLastPacketTime s)"
  using assms
  by (auto simp: readRTPUDPRecord_def onDecodeError_def Let_def emit_def split: option.splits)

theorem C2_witness:
  "int (length [128, 96, 7 :: byte]) \<noteq> udpMaxPayloadSize exEnv + 1 \<and>
   (\<exists>pkt. rtpUnmarshal exEnv [128, 96, 7] = Inr pkt \<and> formats exState (PayloadType pkt) \<noteq> None) \<and>
   udpLastPacketTime (readRTPUDPRecord exEnv exNow [128, 96, 7] exState) = 1700000000 \<and>
   (\<exists>pkt. rtpUnmarshal exEnv [128, 98, 7] = Inr pkt \<and> formats exState (PayloadType pkt) = None) \<and>
   udpLastPacketTime (readRTPUDPRecord exEnv exNow [128, 98, 7] exState) = 0"
proof -
  let ?p = "\<lparr>Version = 2, PayloadType = 96, SequenceNumber = 0, Timestamp = 0,
               rtp_SSRC = 0, rtp_Payload = [7]\<rparr>"
  let ?q = "\<lparr>Version = 2, PayloadType = 98, SequenceNumber = 0, Timestamp = 0,
               rtp_SSRC = 0, rtp_Payload = [7]\<rparr>"
  have l: "int (length [128, 96, 7 :: byte]) \<noteq> udpMaxPayloadSize exEnv + 1"
    "int (length [128, 98, 7 :: byte]) \<noteq> udpMaxPayloadSize exEnv + 1"
    by (simp_all add: exEnv_def)
  have u: "rtpUnmarshal exEnv [128, 96, 7] = Inr ?p" "rtpUnmarshal exEnv [128, 98, 7] = Inr ?q"
    by (simp_all add: exEnv_def exRtpUnmarshal_def)
  have f: "formats exState (PayloadType ?p) \<noteq> None" "formats exState (PayloadType ?q) = None"
    by (simp_all add: exState_def)
  have t: "Unix exNow = 1700000000" "udpLastPacketTime exState = 0"
    by (simp_all add: Unix_def exNow_def exState_def)
  from C2_timestamp_after_lookup [OF l(1) u(1), of exState exNow]
       C2_timestamp_after_lookup [OF l(2) u(2), of exState exNow] l u f t
  show ?thesis by simp
qed

section \<open>Inbound RTP: routing by payload type\<close>

text \<open>C3: a well-formed RTP packet (one that passes the checks made before the lookup:
  over UDP the datagram is not of the sentinel length, and on both paths the bytes
  unmarshal) whose payload type is in \<open>formats\<close> adds to the trace the parser call and one
  hand-over, to the component mapped to that type; when the type is absent it adds the
  parser call and one unknown-payload-type decode error carrying the type, and no
  hand-over.\<close>

theorem C3_rtp_dispatch:
  assumes "rtpUnmarshal ev payload = Inr pkt"
  shows "(int (length payload) \<noteq> udpMaxPayloadSize ev + 1 \<longrightarrow>
           (\<forall>forma. formats s (PayloadType pkt) = Some forma \<longrightarrow>
              trace (readRTPUDPRecord ev now payload s) =
                trace s @ [RTPUnmarshal payload, SfReadRTPUDP forma pkt now]) \<and>
           (formats s (PayloadType pkt) = None \<longrightarrow>
              trace (readRTPUDPRecord ev now payload s) =
                trace s @ [RTPUnmarshal payload,
                           DecodeError (ErrServerRTPPacketUnknownPayloadType (PayloadType pkt))])) \<and>
         (\<forall>forma. formats s (PayloadType pkt) = Some forma \<longrightarrow>
            trace (readRTPTCPRecord ev payload s) =
              trace s @ [RTPUnmarshal payload, SfReadRTPTCP forma pkt]) \<and>
         (formats s (PayloadType pkt) = None \<longrightarrow>
            trace (readRTPTCPRecord ev payload s) =
              trace s @ [RTPUnmarshal payload,
                         DecodeError (ErrServerRTPPacketUnknownPayloadType (PayloadType pkt))])"
  using assms
  by (simp add: readRTPUDPRecord_def readRTPTCPRecord_def onDecodeError_def Let_def)

theorem C3_witness:
  "int (length [128, 96, 7 :: byte]) \<noteq> udpMaxPayloadSize exEnv + 1 \<and>
   trace (readRTPUDPRecord exEnv exNow [128, 96, 7] exState) =
     [RTPUnmarshal [128, 96, 7],
      SfReadRTPUDP exSF96 \<lparr>Version = 2, PayloadType = 96, SequenceNumber = 0, Timestamp = 0,
               rtp_SSRC = 0, rtp_Payload = [7]\<rparr> exNow] \<and>
   trace (readRTPTCPRecord exEnv [128, 96, 7] exState) =
     [RTPUnmarshal [128, 96, 7],
      SfReadRTPTCP exSF96 \<lparr>Version = 2, PayloadType = 96, SequenceNumber = 0, Timestamp = 0,
               rtp_SSRC = 0, rtp_Payload = [7]\<rparr>] \<and>
   trace (readRTPUDPRecord exEnv exNow [128, 98, 7] exState) =
     [RTPUnmarshal [128, 98, 7], DecodeError (ErrServerRTPPacketUnknownPayloadType 98)] \<and>
   trace (readRTPTCPRecord exEnv [128, 98, 7] exState) =
     [RTPUnmarshal [128, 98, 7], DecodeError (ErrServerRTPPacketUnknownPayloadType 98)]"
proof -
  let ?p = "\<lparr>Version = 2, PayloadType = 96, SequenceNumber = 0, Timestamp = 0,
               rtp_SSRC = 0, rtp_Payload = [7]\<rparr>"
  let ?q = "\<lparr>Version = 2, PayloadType = 98, SequenceNumber = 0, Timestamp = 0,
               rtp_SSRC = 0, rtp_Payload = [7]\<rparr>"
  have l: "int (length [128, 96, 7 :: byte]) \<noteq> udpMaxPayloadSize exEnv + 1"
    "int (length [128, 98, 7 :: byte]) \<noteq> udpMaxPayloadSize exEnv + 1"
    by (simp_all add: exEnv_def)
  have u: "rtpUnmarshal exEnv [128, 96, 7] = Inr ?p" "rtpUnmarshal exEnv [128, 98, 7] = Inr ?q"
    by (simp_all add: exEnv_def exRtpUnmarshal_def)
  have f: "formats exState (PayloadType ?p) = Some exSF96" "formats exState (PayloadType ?q) = None"
    "trace exState = []"
    by (simp_all add: exState_def)
  from C3_rtp_dispatch [OF u(1), of exState exNow] C3_rtp_dispatch [OF u(2), of exState exNow]
    l f
  show ?thesis by simp
qed

section \<open>RTCP: callback and sender reports\<close>

text \<open>C4: when a datagram or frame passes the length check and unmarshals, every decoded
  packet is passed to \<open>onPacketRTCP\<close> once, in order. The Play handlers make no other
  call. The Record handlers call \<open>ProcessSenderReport\<close>, with the current time, for exactly
  the decoded Sender Reports for which some component of \<open>formats\<close> reports the report's
  SSRC as its sender SSRC, each on a component that reports that SSRC. This holds
  whichever order each loop over \<open>formats\<close> takes, provided it visits every key.\<close>

theorem C4_rtcp_callbacks_and_sender_reports:
  assumes um: "rtcpUnmarshal ev payload = Inr packets"
      and ord: "\<forall>j. dom (formats s) \<subseteq> set (ord j)"
  shows "(int (length payload) \<noteq> udpMaxPayloadSize ev + 1 \<longrightarrow>
            trace (readRTCPUDPPlay ev now payload s) =
              trace s @ RTCPUnmarshal payload # map PacketRTCPCallback packets) \<and>
         (int (length payload) \<le> udpMaxPayloadSize ev \<longrightarrow>
            trace (readRTCPTCPPlay ev payload s) =
              trace s @ RTCPUnmarshal payload # map PacketRTCPCallback packets) \<and>
         (\<forall>s'. int (length payload) \<noteq> udpMaxPayloadSize ev + 1 \<and>
                  s' = readRTCPUDPRecord ev ord now payload s \<or>
                int (length payload) \<le> udpMaxPayloadSize ev \<and>
                  s' = readRTCPTCPRecord ev ord now payload s \<longrightarrow>
            (\<exists>new. trace s' = trace s @ RTCPUnmarshal payload # new \<and>
               callbacksOf new = packets \<and>
               map (\<lambda>(f, sr, t). (sr, t)) (senderReportsProcessed new) =
                 map (\<lambda>sr. (sr, now))
                   (filter (\<lambda>sr. \<exists>f\<in>ran (formats s). SenderSSRC f = (sr_SSRC sr, True))
                      (senderReportsIn packets)) \<and>
               (\<forall>(f, sr, t) \<in> set (senderReportsProcessed new).
                   f \<in> ran (formats s) \<and> SenderSSRC f = (sr_SSRC sr, True))))"
proof -
  have play_udp: "int (length payload) \<noteq> udpMaxPayloadSize ev + 1 \<longrightarrow>
            trace (readRTCPUDPPlay ev now payload s) =
              trace s @ RTCPUnmarshal payload # map PacketRTCPCallback packets"
    using um by (simp add: readRTCPUDPPlay_def Let_def packetsPlay_eq)
  have play_tcp: "int (length payload) \<le> udpMaxPayloadSize ev \<longrightarrow>
            trace (readRTCPTCPPlay ev payload s) =
              trace s @ RTCPUnmarshal payload # map PacketRTCPCallback packets"
    using um by (simp add: readRTCPTCPPlay_def Let_def packetsPlay_eq)
  have loop: "\<exists>new. trace (packetsRecord ord now 0 packets s0) = trace s @ RTCPUnmarshal payload # new \<and>
               callbacksOf new = packets \<and>
               map (\<lambda>(f, sr, t). (sr, t)) (senderReportsProcessed new) =
                 map (\<lambda>sr. (sr, now))
                   (filter (\<lambda>sr. \<exists>f\<in>ran (formats s). SenderSSRC f = (sr_SSRC sr, True))
                      (senderReportsIn packets)) \<and>
               (\<forall>(f, sr, t) \<in> set (senderReportsProcessed new).
                   f \<in> ran (formats s) \<and> SenderSSRC f = (sr_SSRC sr, True))"
    if s0: "formats s0 = formats s" "trace s0 = trace s @ [RTCPUnmarshal payload]" for s0
  proof -
    from ord s0(1) have "\<forall>j. dom (formats s0) \<subseteq> set (ord j)" by simp
    from packetsRecord_trace [OF this, of now 0 packets] show ?thesis
      unfolding s0 by simp
  qed
  have rec_udp: "\<exists>new. trace (readRTCPUDPRecord ev ord now payload s) =
                   trace s @ RTCPUnmarshal payload # new \<and>
               callbacksOf new = packets \<and>
               map (\<lambda>(f, sr, t). (sr, t)) (senderReportsProcessed new) =
                 map (\<lambda>sr. (sr, now))
                   (filter (\<lambda>sr. \<exists>f\<in>ran (formats s). SenderSSRC f = (sr_SSRC sr, True))
                      (senderReportsIn packets)) \<and>
               (\<forall>(f, sr, t) \<in> set (senderReportsProcessed new).
                   f \<in> ran (formats s) \<and> SenderSSRC f = (sr_SSRC sr, True))"
    if len: "int (length payload) \<noteq> udpMaxPayloadSize ev + 1"
  proof -
    let ?s0 = "(emit (RTCPUnmarshal payload)
                 (s\<lparr>bytesReceived := bytesReceived s + of_nat (length payload)\<rparr>))
               \<lparr>udpLastPacketTime := Unix now\<rparr>"
    have eq: "readRTCPUDPRecord ev ord now payload s = packetsRecord ord now 0 packets ?s0"
      using um len by (simp add: readRTCPUDPRecord_def Let_def)
    have "formats ?s0 = formats s" "trace ?s0 = trace s @ [RTCPUnmarshal payload]"
      by (simp_all add: emit_def)
    from loop [OF this] show ?thesis unfolding eq .
  qed
  have rec_tcp: "\<exists>new. trace (readRTCPTCPRecord ev ord now payload s) =
                   trace s @ RTCPUnmarshal payload # new \<and>
               callbacksOf new = packets \<and>
               map (\<lambda>(f, sr, t). (sr, t)) (senderReportsProcessed new) =
                 map (\<lambda>sr. (sr, now))
                   (filter (\<lambda>sr. \<exists>f\<in>ran (formats s). SenderSSRC f = (sr_SSRC sr, True))
                      (senderReportsIn packets)) \<and>
               (\<forall>(f, sr, t) \<in> set (senderReportsProcessed new).
                   f \<in> ran (formats s) \<and> SenderSSRC f = (sr_SSRC sr, True))"
    if len: "int (length payload) \<le> udpMaxPayloadSize ev"
  proof -
    let ?s0 = "emit (RTCPUnmarshal payload) s"
    have eq: "readRTCPTCPRecord ev ord now payload s = packetsRecord ord now 0 packets ?s0"
      using um len by (simp add: readRTCPTCPRecord_def Let_def)
    have "formats ?s0 = formats s" "trace ?s0 = trace s @ [RTCPUnmarshal payload]"
      by simp_all
    from loop [OF this] show ?thesis unfolding eq .
  qed
  from play_udp play_tcp rec_udp rec_tcp show ?thesis by blast
qed

theorem C4_witness:
  "rtcpUnmarshal exEnv [200, 1] = Inr [SenderReport exSR, OtherRTCP [1]] \<and>
   (\<forall>j. dom (formats exState) \<subseteq> set ((\<lambda>i. [96, 97]) j)) \<and>
   int (length [200, 1 :: byte]) \<noteq> udpMaxPayloadSize exEnv + 1 \<and>
   int (length [200, 1 :: byte]) \<le> udpMaxPayloadSize exEnv \<and>
   trace (readRTCPUDPPlay exEnv exNow [200, 1] exState) =
     [RTCPUnmarshal [200, 1], PacketRTCPCallback (SenderReport exSR),
      PacketRTCPCallback (OtherRTCP [1])] \<and>
   trace (readRTCPTCPPlay exEnv [200, 1] exState) =
     [RTCPUnmarshal [200, 1], PacketRTCPCallback (SenderReport exSR),
      PacketRTCPCallback (OtherRTCP [1])] \<and>
   (\<exists>new. trace (readRTCPUDPRecord exEnv (\<lambda>i. [96, 97]) exNow [200, 1] exState) =
             RTCPUnmarshal [200, 1] # new \<and>
           callbacksOf new = [SenderReport exSR, OtherRTCP [1]] \<and>
           map (\<lambda>(f, sr, t). (sr, t)) (senderReportsProcessed new) = [(exSR, exNow)]) \<and>
   (\<exists>new. trace (readRTCPTCPRecord exEnv (\<lambda>i. [96, 97]) exNow [200, 1] exState) =
             RTCPUnmarshal [200, 1] # new \<and>
           callbacksOf new = [SenderReport exSR, OtherRTCP [1]] \<and>
           map (\<lambda>(f, sr, t). (sr, t)) (senderReportsProcessed new) = [(exSR, exNow)])"
proof -
  have um: "rtcpUnmarshal exEnv [200, 1] = Inr [SenderReport exSR, OtherRTCP [1]]"
    by (simp add: exEnv_def exRtcpUnmarshal_def)
  have ord: "\<forall>j. dom (formats exState) \<subseteq> set ((\<lambda>i. [96, 97]) j)"
    by (simp add: exState_def)
  have l: "int (length [200, 1 :: byte]) \<noteq> udpMaxPayloadSize exEnv + 1"
    "int (length [200, 1 :: byte]) \<le> udpMaxPayloadSize exEnv"
    by (simp_all add: exEnv_def)
  have t: "trace exState = []" by (simp add: exState_def)
  have m: "filter (\<lambda>sr. \<exists>f\<in>ran (formats exState). SenderSSRC f = (sr_SSRC sr, True))
             (senderReportsIn [SenderReport exSR, OtherRTCP [1]]) = [exSR]"
  proof -
    have "exSF96 \<in> ran (formats exState)"
      by (auto simp: exState_def ran_def)
    moreover have "SenderSSRC exSF96 = (sr_SSRC exSR, True)"
      by (simp add: exSF96_def exSR_def)
    ultimately show ?thesis by auto
  qed
  note c = C4_rtcp_callbacks_and_sender_reports [OF um ord, of exNow]
  from c l t have p1: "trace (readRTCPUDPPlay exEnv exNow [200, 1] exState) =
     [RTCPUnmarshal [200, 1], PacketRTCPCallback (SenderReport exSR),
      PacketRTCPCallback (OtherRTCP [1])]" by simp
  from c l t have p2: "trace (readRTCPTCPPlay exEnv [200, 1] exState) =
     [RTCPUnmarshal [200, 1], PacketRTCPCallback (SenderReport exSR),
      PacketRTCPCallback (OtherRTCP [1])]" by simp
  from c l have "\<exists>new. trace (readRTCPUDPRecord exEnv (\<lambda>i. [96, 97]) exNow [200, 1] exState) =
             trace exState @ RTCPUnmarshal [200, 1] # new \<and>
           callbacksOf new = [SenderReport exSR, OtherRTCP [1]] \<and>
           map (\<lambda>(f, sr, t). (sr, t)) (senderReportsProcessed new) =
             map (\<lambda>sr. (sr, exNow))
                   (filter (\<lambda>sr. \<exists>f\<in>ran (formats exState). SenderSSRC f = (sr_SSRC sr, True))
                      (senderReportsIn [SenderReport exSR, OtherRTCP [1]]))"
    by blast
  then have r1: "\<exists>new. trace (readRTCPUDPRecord exEnv (\<lambda>i. [96, 97]) exNow [200, 1] exState) =
             RTCPUnmarshal [200, 1] # new \<and>
           callbacksOf new = [SenderReport exSR, OtherRTCP [1]] \<and>
           map (\<lambda>(f, sr, t). (sr, t)) (senderReportsProcessed new) = [(exSR, exNow)]"
    unfolding m t by simp
  from c l have "\<exists>new. trace (readRTCPTCPRecord exEnv (\<lambda>i. [96, 97]) exNow [200, 1] exState) =
             trace exState @ RTCPUnmarshal [200, 1] # new \<and>
           callbacksOf new = [SenderReport exSR, OtherRTCP [1]] \<and>
           map (\<lambda>(f, sr, t). (sr, t)) (senderReportsProcessed new) =
             map (\<lambda>sr. (sr, exNow))
                   (filter (\<lambda>sr. \<exists>f\<in>ran (formats exState). SenderSSRC f = (sr_SSRC sr, True))
                      (senderReportsIn [SenderReport exSR, OtherRTCP [1]]))"
    by blast
  then have r2: "\<exists>new. trace (readRTCPTCPRecord exEnv (\<lambda>i. [96, 97]) exNow [200, 1] exState) =
             RTCPUnmarshal [200, 1] # new \<and>
           callbacksOf new = [SenderReport exSR, OtherRTCP [1]] \<and>
           map (\<lambda>(f, sr, t). (sr, t)) (senderReportsProcessed new) = [(exSR, exNow)]"
    unfolding m t by simp
  from um ord l p1 p2 r1 r2 show ?thesis by blast
qed

section \<open>Length checks\<close>

text \<open>C5: a UDP datagram of length \<open>udpMaxPayloadSize + 1\<close> is counted in the inbound
  byte counter and answered with the too-big decode error of its path and nothing else:
  the trace gains that one event, so no parser is called, and the result does not depend
  on the parsers. The too-big errors differ from every error a parser returns.\<close>

theorem C5_sentinel_length_rejected:
  assumes "int (length payload) = udpMaxPayloadSize ev + 1"
  shows "readRTPUDPRecord ev now payload s =
           s\<lparr>bytesReceived := bytesReceived s + of_nat (length payload),
             trace := trace s @ [DecodeError ErrServerRTPPacketTooBigUDP]\<rparr> \<and>
         readRTCPUDPRecord ev ord now payload s =
           s\<lparr>bytesReceived := bytesReceived s + of_nat (length payload),
             trace := trace s @ [DecodeError ErrServerRTCPPacketTooBigUDP]\<rparr> \<and>
         readRTCPUDPPlay ev now payload s =
           s\<lparr>bytesReceived := bytesReceived s + of_nat (length payload),
             trace := trace s @ [DecodeError ErrServerRTCPPacketTooBigUDP]\<rparr> \<and>
         (\<forall>err. ErrServerRTPPacketTooBigUDP \<noteq> ErrUnmarshal err \<and>
                ErrServerRTCPPacketTooBigUDP \<noteq> ErrUnmarshal err)"
  using assms
  by (simp add: readRTPUDPRecord_def readRTCPUDPRecord_def readRTCPUDPPlay_def onDecodeError_def
      emit_def Let_def)

theorem C5_witness:
  "int (length (replicate 1473 (0 :: byte))) = udpMaxPayloadSize exEnv + 1 \<and>
   readRTPUDPRecord exEnv exNow (replicate 1473 0) exState =
     exState\<lparr>bytesReceived := 1473, trace := [DecodeError ErrServerRTPPacketTooBigUDP]\<rparr> \<and>
   readRTCPUDPRecord exEnv (\<lambda>i. [96, 97]) exNow (replicate 1473 0) exState =
     exState\<lparr>bytesReceived := 1473, trace := [DecodeError ErrServerRTCPPacketTooBigUDP]\<rparr> \<and>
   readRTCPUDPPlay exEnv exNow (replicate 1473 0) exState =
     exState\<lparr>bytesReceived := 1473, trace := [DecodeError ErrServerRTCPPacketTooBigUDP]\<rparr>"
proof -
  have l: "int (length (replicate 1473 (0 :: byte))) = udpMaxPayloadSize exEnv + 1"
    by (simp add: exEnv_def)
  have v: "bytesReceived exState = 0" "trace exState = []"
    by (simp_all add: exState_def)
  from C5_sentinel_length_rejected [OF l, of exNow exState "\<lambda>i. [96, 97]"] l v
  show ?thesis by simp
qed

text \<open>C6: a TCP RTCP frame of length \<open>udpMaxPayloadSize\<close> goes on to the parser in
  both modes and raises no packet-too-big error; a longer frame only raises the
  packet-too-big error carrying its length and \<open>udpMaxPayloadSize\<close>, and no parser is
  called.\<close>

theorem C6_tcp_rtcp_length_limit:
  "(int (length payload) = udpMaxPayloadSize ev \<longrightarrow>
      (\<exists>rest. trace (readRTCPTCPPlay ev payload s) = trace s @ RTCPUnmarshal payload # rest \<and>
              (\<forall>l m. DecodeError (ErrServerRTCPPacketTooBig l m) \<notin> set rest)) \<and>
      (\<exists>rest. trace (readRTCPTCPRecord ev ord now payload s) = trace s @ RTCPUnmarshal payload # rest \<and>
              (\<forall>l m. DecodeError (ErrServerRTCPPacketTooBig l m) \<notin> set rest))) \<and>
   (int (length payload) > udpMaxPayloadSize ev \<longrightarrow>
      readRTCPTCPPlay ev payload s =
        s\<lparr>trace := trace s @
             [DecodeError (ErrServerRTCPPacketTooBig (int (length payload)) (udpMaxPayloadSize ev))]\<rparr> \<and>
      readRTCPTCPRecord ev ord now payload s =
        s\<lparr>trace := trace s @
             [DecodeError (ErrServerRTCPPacketTooBig (int (length payload)) (udpMaxPayloadSize ev))]\<rparr>)"
proof -
  have big: "int (length payload) > udpMaxPayloadSize ev \<longrightarrow>
      readRTCPTCPPlay ev payload s =
        s\<lparr>trace := trace s @
             [DecodeError (ErrServerRTCPPacketTooBig (int (length payload)) (udpMaxPayloadSize ev))]\<rparr> \<and>
      readRTCPTCPRecord ev ord now payload s =
        s\<lparr>trace := trace s @
             [DecodeError (ErrServerRTCPPacketTooBig (int (length payload)) (udpMaxPayloadSize ev))]\<rparr>"
    by (simp add: readRTCPTCPPlay_def readRTCPTCPRecord_def onDecodeError_def emit_def)
  have play: "\<exists>rest. trace (readRTCPTCPPlay ev payload s) = trace s @ RTCPUnmarshal payload # rest \<and>
              (\<forall>l m. DecodeError (ErrServerRTCPPacketTooBig l m) \<notin> set rest)"
    if "int (length payload) = udpMaxPayloadSize ev"
    using that
    by (cases "rtcpUnmarshal ev payload")
       (auto simp: readRTCPTCPPlay_def onDecodeError_def Let_def packetsPlay_eq)
  have rec: "\<exists>rest. trace (readRTCPTCPRecord ev ord now payload s) = trace s @ RTCPUnmarshal payload # rest \<and>
              (\<forall>l m. DecodeError (ErrServerRTCPPacketTooBig l m) \<notin> set rest)"
    if len: "int (length payload) = udpMaxPayloadSize ev"
  proof (cases "rtcpUnmarshal ev payload")
    case (Inl err)
    with len show ?thesis
      by (simp add: readRTCPTCPRecord_def onDecodeError_def Let_def)
  next
    case (Inr packets)
    from packetsRecord_trace_noerr [of ord now 0 packets "emit (RTCPUnmarshal payload) s"]
    obtain new where "trace (packetsRecord ord now 0 packets (emit (RTCPUnmarshal payload) s)) =
        trace (emit (RTCPUnmarshal payload) s) @ new" "\<forall>e. DecodeError e \<notin> set new"
      by blast
    with len Inr show ?thesis
      by (simp add: readRTCPTCPRecord_def Let_def)
  qed
  from big play rec show ?thesis by blast
qed

theorem C6_witness:
  "int (length (replicate 1472 (0 :: byte))) = udpMaxPayloadSize exEnv \<and>
   (\<exists>rest. trace (readRTCPTCPPlay exEnv (replicate 1472 0) exState) =
             RTCPUnmarshal (replicate 1472 0) # rest) \<and>
   (\<exists>rest. trace (readRTCPTCPRecord exEnv (\<lambda>i. [96, 97]) exNow (replicate 1472 0) exState) =
             RTCPUnmarshal (replicate 1472 0) # rest) \<and>
   int (length (replicate 1473 (0 :: byte))) > udpMaxPayloadSize exEnv \<and>
   readRTCPTCPPlay exEnv (replicate 1473 0) exState =
     exState\<lparr>trace := [DecodeError (ErrServerRTCPPacketTooBig 1473 1472)]\<rparr> \<and>
   readRTCPTCPRecord exEnv (\<lambda>i. [96, 97]) exNow (replicate 1473 0) exState =
     exState\<lparr>trace := [DecodeError (ErrServerRTCPPacketTooBig 1473 1472)]\<rparr>"
proof -
  have l: "int (length (replicate 1472 (0 :: byte))) = udpMaxPayloadSize exEnv"
    "int (length (replicate 1473 (0 :: byte))) > udpMaxPayloadSize exEnv"
    by (simp_all add: exEnv_def)
  have v: "trace exState = []" "udpMaxPayloadSize exEnv = 1472"
    by (simp_all add: exState_def exEnv_def)
  from C6_tcp_rtcp_length_limit [of "replicate 1472 0" exEnv exState "\<lambda>i. [96, 97]" exNow]
       C6_tcp_rtcp_length_limit [of "replicate 1473 0" exEnv exState "\<lambda>i. [96, 97]" exNow]
       l v
  show ?thesis by auto
qed

section \<open>TCP handlers leave the UDP counters alone\<close>

text \<open>C10: after any sequence of calls of the four TCP read handlers, the inbound byte
  counter and the last-UDP-activity timestamp have the values they had before.\<close>

theorem C10_tcp_handlers_frame:
  assumes "\<forall>d \<in> set ds. isTCPReadFunc (fst d)"
  shows "bytesReceived (deliverAll ev ds s) = bytesReceived s \<and>
         udpLastPacketTime (deliverAll ev ds s) = udpLastPacketTime s"
  using assms
proof (induction ds arbitrary: s)
  case Nil
  then show ?case by simp
next
  case (Cons d ds)
  obtain cb ord now payload where d: "d = (cb, ord, now, payload)"
    by (cases d) auto
  with Cons.prems have tcp: "isTCPReadFunc cb" by simp
  from Cons.prems have rest: "\<forall>d \<in> set ds. isTCPReadFunc (fst d)" by simp
  from Cons.IH [OF rest, of "callReadFunc ev ord now cb payload s"]
       callReadFunc_tcp_frame [OF tcp, of ev ord now payload s] d
  show ?case by simp
qed

theorem C10_witness:
  "list_all (\<lambda>d. isTCPReadFunc (fst d)) exFrames \<and>
   bytesReceived (deliverAll exEnv exFrames exState) = 0 \<and>
   udpLastPacketTime (deliverAll exEnv exFrames exState) = 0"
proof -
  have h: "\<forall>d \<in> set exFrames. isTCPReadFunc (fst d)"
    by (simp add: exFrames_def)
  have v: "bytesReceived exState = 0" "udpLastPacketTime exState = 0"
    by (simp_all add: exState_def)
  from C10_tcp_handlers_frame [OF h, of exEnv exState] h v show ?thesis
    by (simp add: list_all_iff)
qed

section \<open>Transport wiring: start and stop\<close>

text \<open>C7, as stated, fails: when \<open>start\<close> returns in Record mode over unicast UDP, both
  read callbacks are registered and nothing has been written to a listener; the two
  packets are closures in the write queue, or, when the queue is full, are in no queue at
  all.\<close>

theorem C7_nothing_transmitted_at_registration:
  "start exEnv [96, 97] exState = Inr exAfterStart \<and>
   filter isListenerWrite (trace exAfterStart) = [] \<and>
   udpRTPClients exAfterStart ([10, 0, 0, 2], 8000) = Some ReadRTPUDPRecord \<and>
   udpRTCPClients exAfterStart ([10, 0, 0, 2], 8001) = Some ReadRTCPUDPRecord \<and>
   writer exAfterStart =
     [TaskWritePacketRTP [128, 0], TaskWritePacketRTCP [128, 201, 0, 1, 0, 0, 0, 0]] \<and>
   start exEnv [96, 97] exFull = Inr exAfterStartFull \<and>
   filter isListenerWrite (trace exAfterStartFull) = [] \<and>
   udpRTPClients exAfterStartFull ([10, 0, 0, 2], 8000) = Some ReadRTPUDPRecord \<and>
   udpRTCPClients exAfterStartFull ([10, 0, 0, 2], 8001) = Some ReadRTCPUDPRecord \<and>
   writer exAfterStartFull = writer exFull"
  using ex_start ex_start_full
  by (simp add: exAfterStart_def exAfterStartFull_def exFull_def)

text \<open>C7, amended: in a mode other than Play (so in Record mode) over unicast UDP,
  \<open>start\<close> starts the per-format components, hands one empty RTP packet and then one
  empty receiver report to the session's write operations, and only then registers the RTP
  and the RTCP read callback; it makes no network write itself. With room in the write
  queue the two packets wait there as closures, with a full queue both are dropped; the
  closure of an accepted packet, when the worker runs it, writes the serialised packet once
  to the negotiated remote RTP or RTCP address.\<close>

theorem C7_firewall_packets_queued_before_registration:
  assumes "setuppedTransport s = Some TransportUDP"
      and "ss_state s \<noteq> ServerSessionStatePlay"
  shows "\<exists>s1. start ev ks s = Inr s1 \<and>
     trace s1 = trace s @ map SfStart (rangeFormats ks (formats s)) @
        [SessionWritePacketRTP emptyRTP, SessionWritePacketRTCP emptyRR,
         ListenerAddClient UDPRTPListener (authorIP s) (udpRTPReadPort s) ReadRTPUDPRecord,
         ListenerAddClient UDPRTCPListener (authorIP s) (udpRTCPReadPort s) ReadRTCPUDPRecord] \<and>
     (Suc (length (writer s)) < writerCapacity s \<longrightarrow>
        writer s1 = writer s @ [TaskWritePacketRTP (rtpMarshal ev emptyRTP),
                                TaskWritePacketRTCP (rtcpMarshal ev emptyRR)]) \<and>
     (writerCapacity s \<le> length (writer s) \<longrightarrow> writer s1 = writer s) \<and>
     runTask ev wallNow (TaskWritePacketRTP (rtpMarshal ev emptyRTP)) s1 =
       Inr (s1\<lparr>bytesSent := bytesSent s1 + of_nat (length (rtpMarshal ev emptyRTP)),
              trace := trace s1 @
                [ListenerWrite UDPRTPListener (rtpMarshal ev emptyRTP) (udpRTPWriteAddr s)]\<rparr>) \<and>
     runTask ev wallNow (TaskWritePacketRTCP (rtcpMarshal ev emptyRR)) s1 =
       Inr (s1\<lparr>bytesSent := bytesSent s1 + of_nat (length (rtcpMarshal ev emptyRR)),
              trace := trace s1 @
                [ListenerWrite UDPRTCPListener (rtcpMarshal ev emptyRR) (udpRTCPWriteAddr s)]\<rparr>)"
  unfolding start_UDP_Record [OF assms]
  by (simp add: runTask_def callWriteFunc_def writePacketRTPInQueueUDP_def
      writePacketRTCPInQueueUDP_def listenerWrite_def emit_def Let_def)

theorem C7_witness:
  "setuppedTransport exState = Some TransportUDP \<and>
   ss_state exState \<noteq> ServerSessionStatePlay \<and>
   Suc (length (writer exState)) < writerCapacity exState \<and>
   writerCapacity exFull \<le> length (writer exFull) \<and>
   (\<exists>s1. start exEnv [96, 97] exState = Inr s1 \<and>
      trace s1 = [SfStart exSF96, SfStart exSF97,
                  SessionWritePacketRTP emptyRTP, SessionWritePacketRTCP emptyRR,
                  ListenerAddClient UDPRTPListener [10, 0, 0, 2] 8000 ReadRTPUDPRecord,
                  ListenerAddClient UDPRTCPListener [10, 0, 0, 2] 8001 ReadRTCPUDPRecord] \<and>
      writer s1 = [TaskWritePacketRTP [128, 0],
                   TaskWritePacketRTCP [128, 201, 0, 1, 0, 0, 0, 0]]) \<and>
   (\<exists>s1. start exEnv [96, 97] exFull = Inr s1 \<and> writer s1 = writer exFull)"
proof -
  have h: "setuppedTransport exState = Some TransportUDP"
    "ss_state exState \<noteq> ServerSessionStatePlay"
    by (simp_all add: exState_def)
  have hf: "setuppedTransport exFull = Some TransportUDP"
    "ss_state exFull \<noteq> ServerSessionStatePlay"
    by (simp_all add: exFull_def exState_def)
  have q: "Suc (length (writer exState)) < writerCapacity exState"
    "writerCapacity exFull \<le> length (writer exFull)"
    by (simp_all add: exState_def exFull_def)
  have v: "trace exState = []" "writer exState = []"
    "authorIP exState = [10, 0, 0, 2]" "udpRTPReadPort exState = 8000"
    "udpRTCPReadPort exState = 8001"
    "rtpMarshal exEnv emptyRTP = [128, 0]"
    "rtcpMarshal exEnv emptyRR = [128, 201, 0, 1, 0, 0, 0, 0]"
    by (simp_all add: exState_def exEnv_def emptyRTP_def)
  from C7_firewall_packets_queued_before_registration [OF h, of exEnv "[96, 97]" exNow]
  have a: "\<exists>s1. start exEnv [96, 97] exState = Inr s1 \<and>
      trace s1 = [SfStart exSF96, SfStart exSF97,
                  SessionWritePacketRTP emptyRTP, SessionWritePacketRTCP emptyRR,
                  ListenerAddClient UDPRTPListener [10, 0, 0, 2] 8000 ReadRTPUDPRecord,
                  ListenerAddClient UDPRTCPListener [10, 0, 0, 2] 8001 ReadRTCPUDPRecord] \<and>
      writer s1 = [TaskWritePacketRTP [128, 0],
                   TaskWritePacketRTCP [128, 201, 0, 1, 0, 0, 0, 0]]"
    using q(1) unfolding ex_rangeFormats v by auto
  from C7_firewall_packets_queued_before_registration [OF hf, of exEnv "[96, 97]" exNow]
  have b: "\<exists>s1. start exEnv [96, 97] exFull = Inr s1 \<and> writer s1 = writer exFull"
    using q(2) by auto
  from h q a b show ?thesis by blast
qed

text \<open>C8: \<open>stop\<close> after \<open>start\<close>. Over unicast UDP no callback is left registered for
  the transport's RTP and RTCP read ports, and a datagram delivered to either key changes
  nothing; over the other transports \<open>start\<close> registers nothing and both client tables
  are as they were before \<open>start\<close>. The components stopped by \<open>stop\<close> are those started by
  \<open>start\<close>, each as often, and these are all the components of \<open>formats\<close>; each of the
  two loops visits every key of the map once, in any order.\<close>

theorem C8_stop_reverses_start:
  assumes st: "start ev ks s = Inr s1" and sp: "stop ks' s1 = Inr s2"
      and ks: "distinct ks" "set ks = dom (formats s)"
      and ks': "distinct ks'" "set ks' = dom (formats s)"
  shows "(setuppedTransport s = Some TransportUDP \<longrightarrow>
            udpRTPClients s2 (authorIP s, udpRTPReadPort s) = None \<and>
            udpRTCPClients s2 (authorIP s, udpRTCPReadPort s) = None \<and>
            deliverUDP ev ord now UDPRTPListener (authorIP s) (udpRTPReadPort s) payload s2 = s2 \<and>
            deliverUDP ev ord now UDPRTCPListener (authorIP s) (udpRTCPReadPort s) payload s2 = s2) \<and>
         (setuppedTransport s \<noteq> Some TransportUDP \<longrightarrow>
            udpRTPClients s2 = udpRTPClients s \<and> udpRTCPClients s2 = udpRTCPClients s) \<and>
         (\<exists>new1 new2. trace s1 = trace s @ new1 \<and> trace s2 = trace s1 @ new2 \<and>
            set (startedOf new1) = ran (formats s) \<and>
            mset (stoppedOf new2) = mset (startedOf new1))"
proof -
  from start_frame [OF st] obtain regs where
    tr1: "trace s1 = trace s @ map SfStart (rangeFormats ks (formats s)) @ regs"
      "startedOf regs = []"
    and fr: "formats s1 = formats s" "setuppedTransport s1 = setuppedTransport s"
      "authorIP s1 = authorIP s" "udpRTPReadPort s1 = udpRTPReadPort s"
      "udpRTCPReadPort s1 = udpRTCPReadPort s"
    and other: "setuppedTransport s \<noteq> Some TransportUDP \<longrightarrow>
            udpRTPClients s1 = udpRTPClients s \<and> udpRTCPClients s1 = udpRTCPClients s"
    by blast
  from sp obtain t where t: "setuppedTransport s1 = Some t"
    by (cases "setuppedTransport s1") (simp_all add: stop_def)
  note s2 = sp [unfolded stop_eq [OF t], simplified]
  have udp: "udpRTPClients s2 (authorIP s, udpRTPReadPort s) = None \<and>
            udpRTCPClients s2 (authorIP s, udpRTCPReadPort s) = None"
    if "setuppedTransport s = Some TransportUDP"
    using that s2 t fr by auto
  have deliver: "deliverUDP ev ord now UDPRTPListener (authorIP s) (udpRTPReadPort s) payload s2 = s2 \<and>
            deliverUDP ev ord now UDPRTCPListener (authorIP s) (udpRTCPReadPort s) payload s2 = s2"
    if "setuppedTransport s = Some TransportUDP"
    using udp [OF that] by (simp add: deliverUDP_def clientsOf_def)
  have nonudp: "udpRTPClients s2 = udpRTPClients s \<and> udpRTCPClients s2 = udpRTCPClients s"
    if "setuppedTransport s \<noteq> Some TransportUDP"
    using that s2 t fr other by auto
  let ?new1 = "map SfStart (rangeFormats ks (formats s)) @ regs"
  let ?new2 = "(if t = TransportUDP
                then [ListenerRemoveClient UDPRTPListener (authorIP s1) (udpRTPReadPort s1),
                      ListenerRemoveClient UDPRTCPListener (authorIP s1) (udpRTCPReadPort s1)]
                else []) @ map SfStop (rangeFormats ks' (formats s))"
  have tr2: "trace s2 = trace s1 @ ?new2"
    using s2 fr(1) by auto
  have started: "startedOf ?new1 = rangeFormats ks (formats s)"
    using tr1(2) by simp
  have "stoppedOf (if t = TransportUDP
                then [ListenerRemoveClient UDPRTPListener (authorIP s1) (udpRTPReadPort s1),
                      ListenerRemoveClient UDPRTCPListener (authorIP s1) (udpRTCPReadPort s1)]
                else []) = []"
    by (simp add: stoppedOf_def List.map_filter_def)
  then have stopped: "stoppedOf ?new2 = rangeFormats ks' (formats s)"
    by simp
  from ks(2) ks'(2) have "set ks = set ks'" by simp
  with ks(1) ks'(1) have "mset ks = mset ks'"
    using set_eq_iff_mset_eq_distinct by blast
  from mset_rangeFormats [OF this, of "formats s"]
  have ms: "mset (stoppedOf ?new2) = mset (startedOf ?new1)"
    unfolding started stopped by simp
  have all: "set (startedOf ?new1) = ran (formats s)"
    unfolding started using ks(2) by (simp add: set_rangeFormats)
  from tr1(1) tr2 ms all have
    "\<exists>new1 new2. trace s1 = trace s @ new1 \<and> trace s2 = trace s1 @ new2 \<and>
            set (startedOf new1) = ran (formats s) \<and>
            mset (stoppedOf new2) = mset (startedOf new1)"
    by blast
  with udp deliver nonudp show ?thesis by blast
qed

theorem C8_witness:
  "start exEnv [96, 97] exState = Inr exAfterStart \<and>
   stop [97, 96] exAfterStart = Inr exAfterStop \<and>
   distinct [96, 97 :: 8 word] \<and> set [96, 97] = dom (formats exState) \<and>
   distinct [97, 96 :: 8 word] \<and> set [97, 96] = dom (formats exState) \<and>
   setuppedTransport exState = Some TransportUDP \<and>
   udpRTPClients exAfterStop (authorIP exState, udpRTPReadPort exState) = None \<and>
   udpRTCPClients exAfterStop (authorIP exState, udpRTCPReadPort exState) = None \<and>
   deliverUDP exEnv (\<lambda>i. [96, 97]) exNow UDPRTPListener
     (authorIP exState) (udpRTPReadPort exState) [128, 96, 7] exAfterStop = exAfterStop \<and>
   deliverUDP exEnv (\<lambda>i. [96, 97]) exNow UDPRTCPListener
     (authorIP exState) (udpRTCPReadPort exState) [200, 1] exAfterStop = exAfterStop \<and>
   setuppedTransport exTCP \<noteq> Some TransportUDP \<and>
   (\<exists>s1 s2. start exEnv [96, 97] exTCP = Inr s1 \<and> stop [97, 96] s1 = Inr s2 \<and>
      udpRTPClients s2 = udpRTPClients exTCP \<and> udpRTCPClients s2 = udpRTCPClients exTCP)"
proof -
  have d: "distinct [96, 97 :: 8 word]" "set [96, 97] = dom (formats exState)"
    "distinct [97, 96 :: 8 word]" "set [97, 96] = dom (formats exState)"
    by (auto simp: exState_def)
  have u: "setuppedTransport exState = Some TransportUDP"
    by (simp add: exState_def)
  note a = C8_stop_reverses_start [OF ex_start ex_stop d,
      of "\<lambda>i. [96, 97]" exNow "[128, 96, 7]"]
  note b = C8_stop_reverses_start [OF ex_start ex_stop d,
      of "\<lambda>i. [96, 97]" exNow "[200, 1]"]
  have ft: "formats exTCP = formats exState" "setuppedTransport exTCP = Some TransportTCP"
    by (simp_all add: exTCP_def)
  from start_TCP_frame [OF ft(2), of exEnv "[96, 97]"] obtain s1 where
    s1: "start exEnv [96, 97] exTCP = Inr s1" "setuppedTransport s1 = setuppedTransport exTCP"
    by blast
  from s1(2) ft(2) have "setuppedTransport s1 = Some TransportTCP" by simp
  from stop_eq [OF this, of "[97, 96]"] obtain s2 where s2: "stop [97, 96] s1 = Inr s2"
    by blast
  have nt: "setuppedTransport exTCP \<noteq> Some TransportUDP"
    by (simp add: exTCP_def)
  from C8_stop_reverses_start [OF s1(1) s2 d [unfolded ft(1) [symmetric]]] nt
  have "udpRTPClients s2 = udpRTPClients exTCP \<and> udpRTCPClients s2 = udpRTCPClients exTCP"
    by blast
  with s1(1) s2 have c: "\<exists>s1 s2. start exEnv [96, 97] exTCP = Inr s1 \<and> stop [97, 96] s1 = Inr s2 \<and>
      udpRTPClients s2 = udpRTPClients exTCP \<and> udpRTCPClients s2 = udpRTCPClients exTCP"
    by blast
  from a b u d ex_start ex_stop nt c show ?thesis by blast
qed

end
